theory Spec2Isabelle
  imports Complex_Main
begin

section \<open>Python values and builtins used by the pipeline\<close>

text \<open>
  The repository is Python. Unbounded integers are \<^typ>\<open>int\<close> or \<^typ>\<open>nat\<close>,
  floats are abstracted to exact rationals (\<^typ>\<open>rat\<close>), strings are
  \<^typ>\<open>string\<close> (one \<^typ>\<open>char\<close> per code point below 256), and an exception
  is a value of \<open>py_error\<close> on the left of a sum.
\<close>

datatype py_error = TypeError | KeyError | ValueError | UploadError

datatype pyval =
    PNone
  | PBool bool
  | PInt int
  | PFloat rat
  | PStr string
  | PList "pyval list"
  | PDict "(string \<times> pyval) list"

text \<open>Truthiness, as \<open>if x:\<close> and \<open>not x\<close> test it.\<close>

fun truthy :: "pyval \<Rightarrow> bool" where
  "truthy PNone = False"
| "truthy (PBool b) = b"
| "truthy (PInt i) = (i \<noteq> 0)"
| "truthy (PFloat x) = (x \<noteq> 0)"
| "truthy (PStr s) = (s \<noteq> [])"
| "truthy (PList xs) = (xs \<noteq> [])"
| "truthy (PDict kvs) = (kvs \<noteq> [])"

text \<open>\<open>str(n)\<close> for a natural number: its decimal digits.\<close>

definition digit_char :: "nat \<Rightarrow> char" where
  "digit_char d = ''0123456789'' ! d"

definition is_digit :: "char \<Rightarrow> bool" where
  "is_digit c = (c \<in> set ''0123456789'')"

fun str_nat :: "nat \<Rightarrow> string" where
  "str_nat n = (if n < 10 then [digit_char n] else str_nat (n div 10) @ [digit_char (n mod 10)])"

declare str_nat.simps [simp del]

definition str_int :: "int \<Rightarrow> string" where
  "str_int i = (if i < 0 then CHR ''-'' # str_nat (nat (- i)) else str_nat (nat i))"

text \<open>The format \<open>{n:03d}\<close> for \<open>n \<ge> 0\<close>: decimal digits, zero-padded to width 3.\<close>

definition format_03d :: "nat \<Rightarrow> string" where
  "format_03d n = replicate (3 - length (str_nat n)) CHR ''0'' @ str_nat n"

text \<open>\<open>str(x)\<close> inside an f-string for a value that is a string or \<open>None\<close>.\<close>

definition str_opt :: "string option \<Rightarrow> string" where
  "str_opt x = (case x of None \<Rightarrow> ''None'' | Some s \<Rightarrow> s)"

text \<open>\<open>str.strip()\<close>, \<open>str.strip(chars)\<close>, \<open>str.split(sep)\<close>, \<open>str.split(sep, 1)\<close>.\<close>

definition py_isspace :: "char \<Rightarrow> bool" where
  "py_isspace c = ((of_char c :: nat) \<in> {9, 10, 11, 12, 13, 28, 29, 30, 31, 32, 133, 160})"

definition strip_by :: "(char \<Rightarrow> bool) \<Rightarrow> string \<Rightarrow> string" where
  "strip_by p s = rev (dropWhile p (rev (dropWhile p s)))"

definition strip_ws :: "string \<Rightarrow> string" where
  "strip_ws s = strip_by py_isspace s"

definition strip_chars :: "string \<Rightarrow> string \<Rightarrow> string" where
  "strip_chars cs s = strip_by (\<lambda>c. c \<in> set cs) s"

fun split_on :: "char \<Rightarrow> string \<Rightarrow> string list" where
  "split_on c [] = [[]]"
| "split_on c (x # xs) =
     (if x = c then [] # split_on c xs
      else (case split_on c xs of [] \<Rightarrow> [[x]] | w # ws \<Rightarrow> (x # w) # ws))"

definition split_once :: "char \<Rightarrow> string \<Rightarrow> string list" where
  "split_once c s =
     (if c \<in> set s then [takeWhile (\<lambda>x. x \<noteq> c) s, drop 1 (dropWhile (\<lambda>x. x \<noteq> c) s)]
      else [s])"

text \<open>\<open>s.replace('unit', '')\<close>: every non-overlapping occurrence, left to right.\<close>

function remove_unit :: "string \<Rightarrow> string" where
  "remove_unit s =
     (if take 4 s = ''unit'' then remove_unit (drop 4 s)
      else (case s of [] \<Rightarrow> [] | x # xs \<Rightarrow> x # remove_unit xs))"
  by pat_completeness auto
termination
proof (relation "measure length")
  show "wf (measure length)" by simp
next
  fix s :: string
  assume "take 4 s = ''unit''"
  then have "s \<noteq> []" by auto
  then show "(drop 4 s, s) \<in> measure length" by simp
next
  fix s :: string and x xs
  assume "s = x # xs"
  then show "(xs, s) \<in> measure length" by simp
qed

declare remove_unit.simps [simp del]

text \<open>
  \<open>os.path.splitext(p)[1]\<close> on a POSIX path: the text from the last dot on, when that
  dot comes after the last slash and some character between them is not a dot.
\<close>

definition rfind :: "char \<Rightarrow> string \<Rightarrow> int" where
  "rfind c s =
     (if c \<in> set s then int (length s) - 1 - int (length (takeWhile (\<lambda>x. x \<noteq> c) (rev s)))
      else - 1)"

definition splitext_ext :: "string \<Rightarrow> string" where
  "splitext_ext p =
     (let sepIndex = rfind CHR ''/'' p; dotIndex = rfind CHR ''.'' p in
      if dotIndex > sepIndex \<and>
         list_ex (\<lambda>c. c \<noteq> CHR ''.'')
           (take (nat (dotIndex - (sepIndex + 1))) (drop (nat (sepIndex + 1)) p))
      then drop (nat dotIndex) p
      else [])"

section \<open>Data model\<close>

text \<open>
  A chunk is a dict with the keys \<open>chunk_id\<close>, \<open>text\<close>, \<open>page\<close>, \<open>bbox\<close> and
  \<open>element_type\<close>. Readers use \<open>dict.get\<close>, so a missing or null \<open>chunk_id\<close>, \<open>page\<close> or
  \<open>element_type\<close> is \<open>None\<close>, and a missing \<open>bbox\<close> is \<open>PNone\<close>. A tuple and a list are both
  \<open>PList\<close>: \<open>_parse_bbox\<close> treats them alike.
\<close>

record chunk =
  chunk_id :: "string option"
  chunk_text :: string
  page :: "int option"
  bbox :: pyval
  element_type :: "string option"

text \<open>A source citation \<open>{field, chunk_id}\<close>, each key read with \<open>dict.get\<close>.\<close>

record source =
  field :: "string option"
  src_chunk_id :: "string option"

text \<open>
  One element of a pass's result list: \<open>{unit, sources, confidence}\<close>. A key that is
  missing is \<open>None\<close>.
\<close>

record extraction_unit =
  unit_d :: "(string \<rightharpoonup> pyval) option"
  sources :: "source list option"
  confidence :: "(string \<rightharpoonup> pyval) option"

text \<open>One element of the merged payload; each source there is \<open>{field, chunk_file_key}\<close>.\<close>

record merged_source =
  out_field :: "string option"
  chunk_file_key :: "string option"

record merged_unit =
  m_unit :: "string \<rightharpoonup> pyval"
  m_sources :: "merged_source list"
  m_confidence :: "string \<rightharpoonup> pyval"

text \<open>A \<open>fitz.Rect(x0, y0, x1, y1)\<close>, in native page units with a top-left origin.\<close>

record rect =
  x0 :: rat
  y0 :: rat
  x1 :: rat
  y1 :: rat

section \<open>Bounding boxes: \<open>CutoutExtractor._parse_bbox\<close>\<close>

text \<open>
  \<open>float(x)\<close>. The parser of numeric strings is Python's own and is taken as the
  parameter \<open>fs\<close> (\<open>None\<close> where \<open>float\<close> raises \<open>ValueError\<close>). A number converts to
  itself, a bool to 0 or 1, and \<open>None\<close>, a list or a dict raise \<open>TypeError\<close>.
\<close>

fun py_float :: "(string \<Rightarrow> rat option) \<Rightarrow> pyval \<Rightarrow> py_error + rat" where
  "py_float fs (PFloat x) = Inr x"
| "py_float fs (PInt i) = Inr (of_int i)"
| "py_float fs (PBool b) = Inr (if b then 1 else 0)"
| "py_float fs (PStr s) = (case fs s of None \<Rightarrow> Inl ValueError | Some x \<Rightarrow> Inr x)"
| "py_float fs PNone = Inl TypeError"
| "py_float fs (PList xs) = Inl TypeError"
| "py_float fs (PDict kvs) = Inl TypeError"

text \<open>The comprehension \<open>[float(x) for x in xs]\<close>: the first exception ends it.\<close>

fun floats_of :: "(string \<Rightarrow> rat option) \<Rightarrow> pyval list \<Rightarrow> py_error + rat list" where
  "floats_of fs [] = Inr []"
| "floats_of fs (x # xs) =
     (case py_float fs x of
        Inl e \<Rightarrow> Inl e
      | Inr v \<Rightarrow> (case floats_of fs xs of Inl e \<Rightarrow> Inl e | Inr vs \<Rightarrow> Inr (v # vs)))"

text \<open>
  The \<open>try\<close> block catches \<open>ValueError\<close> and \<open>AttributeError\<close> only and returns \<open>None\<close>
  for them; any other exception leaves the function.
\<close>

definition catch_value_error :: "py_error + rat list option \<Rightarrow> py_error + rat list option" where
  "catch_value_error r = (case r of Inl ValueError \<Rightarrow> Inr None | _ \<Rightarrow> r)"

definition parse_bbox :: "(string \<Rightarrow> rat option) \<Rightarrow> pyval \<Rightarrow> py_error + rat list option" where
  "parse_bbox fs b =
     catch_value_error
       (case b of
          PList xs \<Rightarrow>
            (if length xs = 4
             then (case floats_of fs xs of Inl e \<Rightarrow> Inl e | Inr vs \<Rightarrow> Inr (Some vs))
             else Inr None)
        | PStr s \<Rightarrow>
            (let bbox_str = strip_chars ''()'' s in
             case floats_of fs (map (\<lambda>x. PStr (strip_ws x)) (split_on CHR '','' bbox_str)) of
               Inl e \<Rightarrow> Inl e
             | Inr coords \<Rightarrow> (if length coords = 4 then Inr (Some coords) else Inr None))
        | _ \<Rightarrow> Inr None)"

section \<open>Geometry and naming: \<open>CutoutExtractor._extract_single_cutout\<close>\<close>

text \<open>The \<open>fitz.Rect\<close> built from the bounding box, the page rectangle and the padding.\<close>

definition padded_rect :: "rat \<Rightarrow> rat \<Rightarrow> rat \<Rightarrow> rat \<Rightarrow> rat \<Rightarrow> rat \<Rightarrow> int \<Rightarrow> rect" where
  "padded_rect page_width page_height l t r b padding =
     (let pdf_y_top = page_height - t;
          pdf_y_bottom = page_height - b
      in \<lparr> x0 = max 0 (l - of_int padding),
           y0 = max 0 (pdf_y_top - of_int padding),
           x1 = min page_width (r + of_int padding),
           y1 = min page_height (pdf_y_bottom + of_int padding) \<rparr>)"

definition cutout_filename :: "nat \<Rightarrow> string \<Rightarrow> string \<Rightarrow> int \<Rightarrow> string" where
  "cutout_filename unit_index fld cid page_num =
     ''unit'' @ str_nat (unit_index + 1) @ ''_'' @ fld @ ''_'' @ cid @
     ''_page'' @ str_int page_num @ ''.png''"

text \<open>
  The document is the list of its pages' \<open>(width, height)\<close>. Rasterising and saving
  (\<open>page.get_pixmap\<close>, \<open>pix.save\<close>) belong to the PDF library: \<open>render\<close> says whether they
  succeed for a page index, a clip rectangle, a scale and an output file. Every
  exception inside the function is caught and turned into \<open>None\<close>.
\<close>

definition extract_single_cutout ::
  "(nat \<Rightarrow> rect \<Rightarrow> rat \<Rightarrow> string \<Rightarrow> bool) \<Rightarrow> (rat \<times> rat) list \<Rightarrow>
   string \<Rightarrow> nat \<Rightarrow> string \<Rightarrow> int \<Rightarrow> rat list \<Rightarrow> string \<Rightarrow> int \<Rightarrow> rat \<Rightarrow> string option" where
  "extract_single_cutout render doc fld unit_index cid page_num bb output_dir padding scale =
     (let page_idx = page_num - 1 in
      if page_idx < 0 \<or> page_idx \<ge> int (length doc) then None
      else
        (let page_rect = doc ! nat page_idx in
         case bb of
           [l, t, r, b] \<Rightarrow>
             (let clip = padded_rect (fst page_rect) (snd page_rect) l t r b padding;
                  output_file = output_dir @ ''/'' @ cutout_filename unit_index fld cid page_num
              in if render (nat page_idx) clip scale output_file then Some output_file else None)
         | _ \<Rightarrow> None))"

section \<open>The provenance index: \<open>CutoutExtractor.extract_cutouts\<close>\<close>

definition field_key :: "nat \<Rightarrow> string \<Rightarrow> string" where
  "field_key unit_number fld = ''unit'' @ str_nat unit_number @ ''_'' @ fld"

text \<open>
  \<open>cutout_paths\<close> is a dict in insertion order: an association list with distinct keys.
  \<open>add_cutout\<close> creates the key with an empty list when it is new, then appends.
\<close>

definition add_cutout :: "(string \<times> string list) list \<Rightarrow> string \<Rightarrow> string \<Rightarrow> (string \<times> string list) list" where
  "add_cutout cutout_paths k p =
     (if k \<in> fst ` set cutout_paths
      then map (\<lambda>(k', ps). if k' = k then (k', ps @ [p]) else (k', ps)) cutout_paths
      else cutout_paths @ [(k, [p])])"

text \<open>One pass of the inner loop, for one source of unit \<open>unit_idx\<close>.\<close>

definition process_source ::
  "(string \<Rightarrow> rat option) \<Rightarrow> (nat \<Rightarrow> rect \<Rightarrow> rat \<Rightarrow> string \<Rightarrow> bool) \<Rightarrow> (rat \<times> rat) list \<Rightarrow>
   chunk list \<Rightarrow> string \<Rightarrow> int \<Rightarrow> rat \<Rightarrow> nat \<Rightarrow> source \<Rightarrow>
   (string \<times> string list) list \<Rightarrow> py_error + (string \<times> string list) list" where
  "process_source fs render doc chunks output_dir padding scale unit_idx src cutout_paths =
     (case (field src, src_chunk_id src) of
        (Some fld, Some cid) \<Rightarrow>
          (if fld = [] \<or> cid = [] then Inr cutout_paths
           else
             (case find (\<lambda>c. chunk_id c = Some cid) chunks of
                None \<Rightarrow> Inr cutout_paths
              | Some chunk_data \<Rightarrow>
                  (case page chunk_data of
                     None \<Rightarrow> Inr cutout_paths
                   | Some page_num \<Rightarrow>
                       (if \<not> truthy (bbox chunk_data) then Inr cutout_paths
                        else
                          (case parse_bbox fs (bbox chunk_data) of
                             Inl e \<Rightarrow> Inl e
                           | Inr None \<Rightarrow> Inr cutout_paths
                           | Inr (Some parsed_bbox) \<Rightarrow>
                               (case extract_single_cutout render doc fld unit_idx cid page_num
                                       parsed_bbox output_dir padding scale of
                                  None \<Rightarrow> Inr cutout_paths
                                | Some cutout_path \<Rightarrow>
                                    Inr (add_cutout cutout_paths
                                           (field_key (unit_idx + 1) fld) cutout_path)))))))
      | _ \<Rightarrow> Inr cutout_paths)"

fun process_sources ::
  "(string \<Rightarrow> rat option) \<Rightarrow> (nat \<Rightarrow> rect \<Rightarrow> rat \<Rightarrow> string \<Rightarrow> bool) \<Rightarrow> (rat \<times> rat) list \<Rightarrow>
   chunk list \<Rightarrow> string \<Rightarrow> int \<Rightarrow> rat \<Rightarrow> nat \<Rightarrow> source list \<Rightarrow>
   (string \<times> string list) list \<Rightarrow> py_error + (string \<times> string list) list" where
  "process_sources fs render doc chunks output_dir padding scale unit_idx [] cp = Inr cp"
| "process_sources fs render doc chunks output_dir padding scale unit_idx (src # rest) cp =
     (case process_source fs render doc chunks output_dir padding scale unit_idx src cp of
        Inl e \<Rightarrow> Inl e
      | Inr cp' \<Rightarrow> process_sources fs render doc chunks output_dir padding scale unit_idx rest cp')"

definition get_sources :: "extraction_unit \<Rightarrow> source list" where
  "get_sources u = (case sources u of None \<Rightarrow> [] | Some ss \<Rightarrow> ss)"

fun process_units ::
  "(string \<Rightarrow> rat option) \<Rightarrow> (nat \<Rightarrow> rect \<Rightarrow> rat \<Rightarrow> string \<Rightarrow> bool) \<Rightarrow> (rat \<times> rat) list \<Rightarrow>
   chunk list \<Rightarrow> string \<Rightarrow> int \<Rightarrow> rat \<Rightarrow> nat \<Rightarrow> extraction_unit list \<Rightarrow>
   (string \<times> string list) list \<Rightarrow> py_error + (string \<times> string list) list" where
  "process_units fs render doc chunks output_dir padding scale unit_idx [] cp = Inr cp"
| "process_units fs render doc chunks output_dir padding scale unit_idx (unit_data # rest) cp =
     (case process_sources fs render doc chunks output_dir padding scale unit_idx
             (get_sources unit_data) cp of
        Inl e \<Rightarrow> Inl e
      | Inr cp' \<Rightarrow> process_units fs render doc chunks output_dir padding scale (Suc unit_idx) rest cp')"

definition extract_cutouts ::
  "(string \<Rightarrow> rat option) \<Rightarrow> (nat \<Rightarrow> rect \<Rightarrow> rat \<Rightarrow> string \<Rightarrow> bool) \<Rightarrow> (rat \<times> rat) list \<Rightarrow>
   extraction_unit list \<Rightarrow> string \<Rightarrow> int \<Rightarrow> rat \<Rightarrow> chunk list \<Rightarrow>
   py_error + (string \<times> string list) list" where
  "extract_cutouts fs render doc extraction_result output_dir padding scale chunks =
     process_units fs render doc chunks output_dir padding scale 0 extraction_result []"

section \<open>Uploading cutouts: \<open>upload_cutouts_to_s3\<close>\<close>

text \<open>
  The object store maps \<open>(bucket, key)\<close> to what was last written there (the local path
  stands for the file's content). \<open>S3Provider.upload_file_from_path\<close> raises when the
  local file is missing or the client refuses; \<open>can_upload\<close> says when it does not.
\<close>

type_synonym s3_store = "string \<times> string \<rightharpoonup> string"

definition upload_file_from_path ::
  "(string \<Rightarrow> string \<Rightarrow> string \<Rightarrow> bool) \<Rightarrow> s3_store \<Rightarrow> string \<Rightarrow> string \<Rightarrow> string \<Rightarrow>
   py_error + (string \<times> s3_store)" where
  "upload_file_from_path can_upload store local_path bucket_name key =
     (if can_upload local_path bucket_name key
      then Inr (''s3://'' @ bucket_name @ ''/'' @ key, store((bucket_name, key) \<mapsto> local_path))
      else Inl UploadError)"

text \<open>The unit index and the field name that the loop reads off a field key.\<close>

definition key_parts :: "string \<Rightarrow> string \<times> string" where
  "key_parts fkey =
     (if CHR ''_'' \<in> set fkey
      then (let parts = split_once CHR ''_'' fkey;
                unit_part = parts ! 0;
                field_name = parts ! 1
            in (remove_unit unit_part, field_name))
      else (''0'', fkey))"

definition s3_key :: "string \<Rightarrow> string \<Rightarrow> string \<Rightarrow> string" where
  "s3_key job_id fkey local_path =
     (let unit_index = fst (key_parts fkey);
          field_name = snd (key_parts fkey);
          ext = splitext_ext local_path
      in ''contracts/'' @ job_id @ ''/unit_'' @ unit_index @ ''/'' @ field_name @ ext)"

text \<open>
  The inner loop over one key's local paths: a failed upload is reported and skipped.
  The state is the URI list of the key and the store.
\<close>

fun upload_paths ::
  "(string \<Rightarrow> string \<Rightarrow> string \<Rightarrow> bool) \<Rightarrow> string \<Rightarrow> string \<Rightarrow> string \<Rightarrow> string list \<Rightarrow>
   string list \<times> s3_store \<Rightarrow> string list \<times> s3_store" where
  "upload_paths can_upload bucket_name job_id fkey [] st = st"
| "upload_paths can_upload bucket_name job_id fkey (local_path # rest) (uris, store) =
     (case upload_file_from_path can_upload store local_path bucket_name
             (s3_key job_id fkey local_path) of
        Inl e \<Rightarrow> upload_paths can_upload bucket_name job_id fkey rest (uris, store)
      | Inr (s3_uri, store') \<Rightarrow>
          upload_paths can_upload bucket_name job_id fkey rest (uris @ [s3_uri], store'))"

fun upload_items ::
  "(string \<Rightarrow> string \<Rightarrow> string \<Rightarrow> bool) \<Rightarrow> string \<Rightarrow> string \<Rightarrow> (string \<times> string list) list \<Rightarrow>
   (string \<times> string list) list \<times> s3_store \<Rightarrow> (string \<times> string list) list \<times> s3_store" where
  "upload_items can_upload bucket_name job_id [] st = st"
| "upload_items can_upload bucket_name job_id ((fkey, local_paths) # rest) (s3_cutout_paths, store) =
     (let (uris, store') = upload_paths can_upload bucket_name job_id fkey local_paths ([], store)
      in upload_items can_upload bucket_name job_id rest (s3_cutout_paths @ [(fkey, uris)], store'))"

definition upload_cutouts_to_s3 ::
  "(string \<Rightarrow> string \<Rightarrow> string \<Rightarrow> bool) \<Rightarrow> s3_store \<Rightarrow> (string \<times> string list) list \<Rightarrow>
   string \<Rightarrow> string \<Rightarrow> (string \<times> string list) list \<times> s3_store" where
  "upload_cutouts_to_s3 can_upload store cutout_paths bucket_name job_id =
     upload_items can_upload bucket_name job_id cutout_paths ([], store)"

section \<open>Reconciliation: \<open>merge_results_with_cutouts\<close>\<close>

definition get_unit :: "extraction_unit \<Rightarrow> (string \<rightharpoonup> pyval)" where
  "get_unit u = (case unit_d u of None \<Rightarrow> Map.empty | Some d \<Rightarrow> d)"

definition get_confidence :: "extraction_unit \<Rightarrow> (string \<rightharpoonup> pyval)" where
  "get_confidence u = (case confidence u of None \<Rightarrow> Map.empty | Some d \<Rightarrow> d)"

text \<open>\<open>installment_unit.get('unit', {}).get('installmentPlans', [])\<close>\<close>

definition get_installment_plans :: "extraction_unit \<Rightarrow> pyval" where
  "get_installment_plans u =
     (case get_unit u ''installmentPlans'' of None \<Rightarrow> PList [] | Some v \<Rightarrow> v)"

text \<open>\<open>s3_cutout_paths.get(field_key, [])\<close> for the key \<open>unit{unit_number}_{field}\<close>.\<close>

definition lookup_uris :: "(string \<rightharpoonup> string list) \<Rightarrow> nat \<Rightarrow> string option \<Rightarrow> string list" where
  "lookup_uris s3_cutout_paths unit_number fld =
     (case s3_cutout_paths (field_key unit_number (str_opt fld)) of None \<Rightarrow> [] | Some us \<Rightarrow> us)"

text \<open>The entry appended for one source of the contract pass.\<close>

definition contract_source_entry :: "(string \<rightharpoonup> string list) \<Rightarrow> nat \<Rightarrow> source \<Rightarrow> merged_source" where
  "contract_source_entry s3_cutout_paths unit_number src =
     \<lparr> out_field = field src,
       chunk_file_key =
         (case lookup_uris s3_cutout_paths unit_number (field src) of
            u # _ \<Rightarrow> Some u
          | [] \<Rightarrow> (if src_chunk_id src \<noteq> Some ''calculated'' then src_chunk_id src else None)) \<rparr>"

text \<open>The entry appended for one source of the installment pass.\<close>

definition installment_source_entry :: "(string \<rightharpoonup> string list) \<Rightarrow> nat \<Rightarrow> source \<Rightarrow> merged_source" where
  "installment_source_entry s3_cutout_paths unit_number src =
     \<lparr> out_field = field src,
       chunk_file_key =
         (case lookup_uris s3_cutout_paths unit_number (field src) of
            u # _ \<Rightarrow> Some u
          | [] \<Rightarrow> src_chunk_id src) \<rparr>"

text \<open>
  The loop over the installment pass's sources: one whose field is already among the
  merged sources is skipped.
\<close>

fun add_installment_sources ::
  "(string \<rightharpoonup> string list) \<Rightarrow> nat \<Rightarrow> source list \<Rightarrow> merged_source list \<Rightarrow> merged_source list" where
  "add_installment_sources s3_cutout_paths unit_number [] acc = acc"
| "add_installment_sources s3_cutout_paths unit_number (src # rest) acc =
     (if list_ex (\<lambda>s. out_field s = field src) acc
      then add_installment_sources s3_cutout_paths unit_number rest acc
      else add_installment_sources s3_cutout_paths unit_number rest
             (acc @ [installment_source_entry s3_cutout_paths unit_number src]))"

text \<open>The body of the loop over the contract pass's units.\<close>

definition merge_unit ::
  "extraction_unit list \<Rightarrow> (string \<rightharpoonup> string list) \<Rightarrow> nat \<Rightarrow> extraction_unit \<Rightarrow> merged_unit" where
  "merge_unit installment_result s3_cutout_paths unit_idx contract_unit =
     (let unit_number = unit_idx + 1;
          contract_sources = map (contract_source_entry s3_cutout_paths unit_number)
                                 (get_sources contract_unit)
      in if unit_idx < length installment_result
         then
           (let installment_unit = installment_result ! unit_idx;
                installment_plans = get_installment_plans installment_unit
            in \<lparr> m_unit =
                   (if truthy installment_plans
                    then (get_unit contract_unit)(''installmentPlans'' \<mapsto> installment_plans)
                    else get_unit contract_unit),
                 m_sources =
                   add_installment_sources s3_cutout_paths unit_number
                     (get_sources installment_unit) contract_sources,
                 m_confidence = get_confidence contract_unit ++ get_confidence installment_unit \<rparr>)
         else
           \<lparr> m_unit = get_unit contract_unit,
             m_sources = contract_sources,
             m_confidence = get_confidence contract_unit \<rparr>)"

definition merge_results_with_cutouts ::
  "extraction_unit list \<Rightarrow> extraction_unit list \<Rightarrow> (string \<rightharpoonup> string list) \<Rightarrow> merged_unit list" where
  "merge_results_with_cutouts contract_result installment_result s3_cutout_paths =
     map (\<lambda>(unit_idx, contract_unit).
            merge_unit installment_result s3_cutout_paths unit_idx contract_unit)
         (enumerate 0 contract_result)"

section \<open>Combining the passes for the cutouts and the report: \<open>main\<close>\<close>

text \<open>
  \<open>combined_result\<close> starts as a shallow copy of \<open>contract_result\<close>; the loop over the
  installment pass updates the unit at the same index, or appends the installment unit
  when the index is past the end. Indexing \<open>['sources']\<close> raises \<open>KeyError\<close> on a unit
  without that key.
\<close>

definition add_installment :: "extraction_unit \<Rightarrow> extraction_unit \<Rightarrow> py_error + extraction_unit" where
  "add_installment combined_unit installment_unit =
     (case sources combined_unit of
        None \<Rightarrow> Inl KeyError
      | Some ss \<Rightarrow>
          Inr \<lparr> unit_d = Some ((get_unit combined_unit)
                              (''installmentPlans'' \<mapsto> get_installment_plans installment_unit)),
                sources = Some (ss @ get_sources installment_unit),
                confidence = Some (get_confidence combined_unit ++ get_confidence installment_unit) \<rparr>)"

fun combine_loop ::
  "nat \<Rightarrow> extraction_unit list \<Rightarrow> extraction_unit list \<Rightarrow> py_error + extraction_unit list" where
  "combine_loop unit_idx [] combined_result = Inr combined_result"
| "combine_loop unit_idx (installment_unit # rest) combined_result =
     (if unit_idx < length combined_result
      then (case add_installment (combined_result ! unit_idx) installment_unit of
              Inl e \<Rightarrow> Inl e
            | Inr u \<Rightarrow> combine_loop (Suc unit_idx) rest (combined_result[unit_idx := u]))
      else combine_loop (Suc unit_idx) rest (combined_result @ [installment_unit]))"

definition combine_results ::
  "extraction_unit list \<Rightarrow> extraction_unit list \<Rightarrow> py_error + extraction_unit list" where
  "combine_results contract_result installment_result =
     combine_loop 0 installment_result contract_result"

section \<open>Chunking: \<open>parse_pdf_to_chunks\<close>\<close>

text \<open>
  What the loops read of the converted document: a provenance entry is a page number
  and a bounding box; a table has its provenance list (empty when the attribute is
  missing or empty) and its markdown export; an item has its \<open>text\<close> attribute (\<open>None\<close>
  when missing), its provenance list and its label's value.
\<close>

record prov =
  page_no :: int
  prov_bbox :: "rat \<times> rat \<times> rat \<times> rat"

record table_item =
  table_prov :: "prov list"
  table_markdown :: string

record doc_item =
  item_text :: "string option"
  item_prov :: "prov list"
  item_label :: "string option"

definition bbox_tuple :: "rat \<times> rat \<times> rat \<times> rat \<Rightarrow> pyval" where
  "bbox_tuple bb = (case bb of (l, t, r, b) \<Rightarrow> PList [PFloat l, PFloat t, PFloat r, PFloat b])"

definition make_chunk :: "nat \<Rightarrow> string \<Rightarrow> prov \<Rightarrow> string option \<Rightarrow> chunk" where
  "make_chunk chunk_counter txt pv etype =
     (let page_ix = page_no pv - 1
      in \<lparr> chunk_id = Some (''chunk_'' @ format_03d chunk_counter),
           chunk_text = txt,
           page = Some (page_ix + 1),
           bbox = bbox_tuple (prov_bbox pv),
           element_type = etype \<rparr>)"

text \<open>The two loops; the state is the chunk list and the counter.\<close>

fun tables_loop :: "table_item list \<Rightarrow> chunk list \<times> nat \<Rightarrow> chunk list \<times> nat" where
  "tables_loop [] st = st"
| "tables_loop (tbl # rest) (chunks, chunk_counter) =
     (case table_prov tbl of
        [] \<Rightarrow> tables_loop rest (chunks, chunk_counter)
      | pv # _ \<Rightarrow>
          tables_loop rest
            (chunks @ [make_chunk chunk_counter (table_markdown tbl) pv (Some ''table'')],
             chunk_counter + 1))"

fun items_loop :: "doc_item list \<Rightarrow> chunk list \<times> nat \<Rightarrow> chunk list \<times> nat" where
  "items_loop [] st = st"
| "items_loop (item # rest) (chunks, chunk_counter) =
     (case item_text item of
        None \<Rightarrow> items_loop rest (chunks, chunk_counter)
      | Some txt \<Rightarrow>
          (if txt = [] \<or> strip_ws txt = [] then items_loop rest (chunks, chunk_counter)
           else
             (case item_prov item of
                [] \<Rightarrow> items_loop rest (chunks, chunk_counter)
              | pv # _ \<Rightarrow>
                  items_loop rest
                    (chunks @ [make_chunk chunk_counter txt pv (item_label item)],
                     chunk_counter + 1))))"

definition parse_pdf_to_chunks :: "table_item list \<Rightarrow> doc_item list \<Rightarrow> chunk list" where
  "parse_pdf_to_chunks tables items = fst (items_loop items (tables_loop tables ([], 0)))"

section \<open>Definitions used to state the properties\<close>

text \<open>The value of a decimal digit string, the left inverse of \<open>str_nat\<close>.\<close>

definition digit_val :: "char \<Rightarrow> nat" where
  "digit_val c = (of_char c :: nat) - 48"

definition nat_of_digits :: "string \<Rightarrow> nat" where
  "nat_of_digits s = foldl (\<lambda>a c. 10 * a + digit_val c) 0 s"

text \<open>The shape of the ids that \<open>parse_pdf_to_chunks\<close> assigns: \<open>chunk_\<close> and decimal digits.\<close>

definition chunk_id_shape :: "string \<Rightarrow> bool" where
  "chunk_id_shape c = (take 6 c = ''chunk_'' \<and> list_all is_digit (drop 6 c))"

text \<open>
  The three steps of geometry resolution as the specification words them: convert the
  bottom-left-origin box to a top-left origin, pad it on all four sides, clamp it to the
  page. A box is \<open>(left, top, right, bottom)\<close>.
\<close>

definition spec_convert :: "rat \<Rightarrow> rat \<times> rat \<times> rat \<times> rat \<Rightarrow> rat \<times> rat \<times> rat \<times> rat" where
  "spec_convert page_height bb =
     (case bb of (l, t, r, b) \<Rightarrow> (l, page_height - t, r, page_height - b))"

definition spec_pad :: "rat \<Rightarrow> rat \<times> rat \<times> rat \<times> rat \<Rightarrow> rat \<times> rat \<times> rat \<times> rat" where
  "spec_pad p box =
     (case box of (lft, tp, rgt, btm) \<Rightarrow> (lft - p, tp - p, rgt + p, btm + p))"

definition spec_clamp :: "rat \<Rightarrow> rat \<Rightarrow> rat \<times> rat \<times> rat \<times> rat \<Rightarrow> rat \<times> rat \<times> rat \<times> rat" where
  "spec_clamp page_width page_height box =
     (case box of (lft, tp, rgt, btm) \<Rightarrow>
        (max 0 lft, max 0 tp, min page_width rgt, min page_height btm))"

text \<open>
  Example data: two chunks of a one-page document, and one unit of each pass. The contract
  unit cites \<open>chunk_003\<close> (present) and \<open>chunk_999\<close> (absent) for the same field, and has
  a calculated field.
\<close>

definition example_chunks :: "chunk list" where
  "example_chunks =
     [\<lparr>chunk_id = Some ''chunk_003'', chunk_text = ''Valor total: R$ 100.000,00'', page = Some 1,
       bbox = PList [PFloat 100, PFloat 700, PFloat 300, PFloat 650],
       element_type = Some ''paragraph''\<rparr>,
      \<lparr>chunk_id = Some ''chunk_004'', chunk_text = ''em 10 parcelas'', page = Some 1,
       bbox = PStr ''(100, 640, 300, 600)'', element_type = Some ''paragraph''\<rparr>]"

definition example_contract_unit :: extraction_unit where
  "example_contract_unit =
     \<lparr>unit_d = Some [''unitCode'' \<mapsto> PStr ''64'', ''sellValue'' \<mapsto> PInt 100000],
      sources = Some [\<lparr>field = Some ''sellValue'', src_chunk_id = Some ''chunk_003''\<rparr>,
                      \<lparr>field = Some ''sellValue'', src_chunk_id = Some ''chunk_999''\<rparr>,
                      \<lparr>field = Some ''buyerName'', src_chunk_id = Some ''chunk_999''\<rparr>,
                      \<lparr>field = Some ''pricePerM2'', src_chunk_id = Some ''calculated''\<rparr>],
      confidence = Some [''sellValue'' \<mapsto> PStr ''high'']\<rparr>"

definition example_installment_unit :: extraction_unit where
  "example_installment_unit =
     \<lparr>unit_d = Some [''unitCode'' \<mapsto> PStr ''64'',
                      ''installmentPlans'' \<mapsto> PList [PDict [(''series'', PStr ''MENSAL'')]]],
      sources = Some [\<lparr>field = Some ''installmentPlans'', src_chunk_id = Some ''chunk_998''\<rparr>],
      confidence = Some [''installmentPlans'' \<mapsto> PStr ''medium'']\<rparr>"

text \<open>
  The chunk list as the specification words it: every table with location metadata, then
  every item with non-blank text and location metadata, each in document order; the
  elements that are emitted are numbered from 0 without gaps.
\<close>

definition table_entry :: "table_item \<Rightarrow> (string \<times> prov \<times> string option) option" where
  "table_entry tbl =
     (case table_prov tbl of [] \<Rightarrow> None | pv # _ \<Rightarrow> Some (table_markdown tbl, pv, Some ''table''))"

definition item_entry :: "doc_item \<Rightarrow> (string \<times> prov \<times> string option) option" where
  "item_entry item =
     (case item_text item of
        None \<Rightarrow> None
      | Some txt \<Rightarrow>
          (if txt = [] \<or> strip_ws txt = [] then None
           else (case item_prov item of [] \<Rightarrow> None | pv # _ \<Rightarrow> Some (txt, pv, item_label item))))"

definition emitted :: "table_item list \<Rightarrow> doc_item list \<Rightarrow> (string \<times> prov \<times> string option) list" where
  "emitted tables items = List.map_filter table_entry tables @ List.map_filter item_entry items"

definition numbered_chunk :: "nat \<times> string \<times> prov \<times> string option \<Rightarrow> chunk" where
  "numbered_chunk ne = (case ne of (n, txt, pv, etype) \<Rightarrow> make_chunk n txt pv etype)"

text \<open>Example document: one table, one blank item and one paragraph.\<close>

definition example_tables :: "table_item list" where
  "example_tables =
     [\<lparr>table_prov = [\<lparr>page_no = 2, prov_bbox = (50, 500, 550, 300)\<rparr>],
       table_markdown = ''| Parcela | Valor |''\<rparr>]"

definition example_items :: "doc_item list" where
  "example_items =
     [\<lparr>item_text = Some ''   '', item_prov = [\<lparr>page_no = 1, prov_bbox = (50, 780, 550, 760)\<rparr>],
       item_label = Some ''paragraph''\<rparr>,
      \<lparr>item_text = Some ''Comprador: Maria'',
       item_prov = [\<lparr>page_no = 1, prov_bbox = (50, 750, 550, 730)\<rparr>],
       item_label = Some ''paragraph''\<rparr>]"

section \<open>Decimal strings\<close>

lemma lt10_cases:
  "(d::nat) < 10 \<Longrightarrow>
   d = 0 \<or> d = 1 \<or> d = 2 \<or> d = 3 \<or> d = 4 \<or> d = 5 \<or> d = 6 \<or> d = 7 \<or> d = 8 \<or> d = 9"
  by arith

lemma digit_char_is_digit: "d < 10 \<Longrightarrow> is_digit (digit_char d)"
  using lt10_cases [of d] by (auto simp: is_digit_def digit_char_def)

lemma digit_val_digit_char: "d < 10 \<Longrightarrow> digit_val (digit_char d) = d"
  using lt10_cases [of d] by (auto simp: digit_val_def digit_char_def)

lemma str_nat_digits: "list_all is_digit (str_nat n)"
proof (induction n rule: str_nat.induct)
  case (1 n)
  show ?case
  proof (cases "n < 10")
    case True
    then show ?thesis
      by (simp add: str_nat.simps [of n] digit_char_is_digit)
  next
    case False
    with "1.IH" show ?thesis
      by (simp add: str_nat.simps [of n] digit_char_is_digit)
  qed
qed

lemma str_nat_nonempty: "str_nat n \<noteq> []"
  by (simp add: str_nat.simps [of n])

lemma rev_digits: "list_all is_digit (rev (str_nat n))"
  using str_nat_digits [of n] by (simp add: list_all_iff)

lemma nat_of_digits_snoc: "nat_of_digits (s @ [c]) = 10 * nat_of_digits s + digit_val c"
  by (simp add: nat_of_digits_def)

lemma nat_of_digits_str_nat: "nat_of_digits (str_nat n) = n"
proof (induction n rule: str_nat.induct)
  case (1 n)
  show ?case
  proof (cases "n < 10")
    case True
    then show ?thesis
      by (simp add: str_nat.simps [of n] nat_of_digits_def digit_val_digit_char)
  next
    case False
    with "1.IH" show ?thesis
      by (simp add: str_nat.simps [of n] nat_of_digits_snoc digit_val_digit_char)
  qed
qed

lemma str_nat_inj: "str_nat m = str_nat n \<Longrightarrow> m = n"
  by (metis nat_of_digits_str_nat)

lemma not_digit_underscore: "\<not> is_digit CHR ''_''"
  by (simp add: is_digit_def)

lemma not_digit_minus: "\<not> is_digit CHR ''-''"
  by (simp add: is_digit_def)

lemma not_digit_e: "\<not> is_digit CHR ''e''"
  by (simp add: is_digit_def)

text \<open>
  Two runs of characters with a property, each followed by a character without it:
  equal strings have equal runs and equal rests.
\<close>

lemma run_split:
  "list_all P xs \<Longrightarrow> list_all P ys \<Longrightarrow> \<not> P a \<Longrightarrow> \<not> P b \<Longrightarrow>
   xs @ a # r = ys @ b # r' \<Longrightarrow> xs = ys \<and> a = b \<and> r = r'"
proof (induction xs arbitrary: ys)
  case Nil
  then show ?case by (cases ys) auto
next
  case (Cons x xs)
  then show ?case by (cases ys) auto
qed

section \<open>Artifact names\<close>

lemma page_suffix_split:
  assumes "rev (str_int p) @ ''egap_'' @ X = rev (str_int q) @ ''egap_'' @ Y"
  shows "p = q \<and> X = Y"
proof -
  have shape: "\<And>i Z. rev (str_int i) @ ''egap_'' @ Z =
      rev (str_nat (nat \<bar>i\<bar>)) @ (if i < 0 then CHR ''-'' else CHR ''e'') #
        ((if i < 0 then ''egap_'' else ''gap_'') @ Z)"
    by (simp add: str_int_def)
  have nd: "\<And>i::int. \<not> is_digit (if i < 0 then CHR ''-'' else CHR ''e'')"
    by (simp add: not_digit_minus not_digit_e)
  from assms have
    "rev (str_nat (nat \<bar>p\<bar>)) @ (if p < 0 then CHR ''-'' else CHR ''e'') #
        ((if p < 0 then ''egap_'' else ''gap_'') @ X) =
     rev (str_nat (nat \<bar>q\<bar>)) @ (if q < 0 then CHR ''-'' else CHR ''e'') #
        ((if q < 0 then ''egap_'' else ''gap_'') @ Y)"
    by (simp only: shape)
  from run_split [OF rev_digits rev_digits nd nd this]
  have d: "str_nat (nat \<bar>p\<bar>) = str_nat (nat \<bar>q\<bar>)"
    and sg: "(if p < 0 then CHR ''-'' else CHR ''e'') = (if q < 0 then CHR ''-'' else CHR ''e'')"
    and tl: "(if p < 0 then ''egap_'' else ''gap_'') @ X = (if q < 0 then ''egap_'' else ''gap_'') @ Y"
    by simp_all
  from sg have same: "(p < 0) = (q < 0)" by (auto split: if_splits)
  from d have "nat \<bar>p\<bar> = nat \<bar>q\<bar>" by (rule str_nat_inj)
  with same have "p = q" by auto
  moreover from tl same have "X = Y" by (auto split: if_splits)
  ultimately show ?thesis by simp
qed

lemma cutout_filename_inj:
  assumes s1: "chunk_id_shape c1" and s2: "chunk_id_shape c2"
    and eq: "cutout_filename u1 f1 c1 p1 = cutout_filename u2 f2 c2 p2"
  shows "u1 = u2 \<and> f1 = f2 \<and> c1 = c2 \<and> p1 = p2"
proof -
  define D1 where "D1 = drop 6 c1"
  define D2 where "D2 = drop 6 c2"
  from s1 have c1: "c1 = ''chunk_'' @ D1" and d1: "list_all is_digit D1"
    unfolding D1_def chunk_id_shape_def by (metis append_take_drop_id, simp)
  from s2 have c2: "c2 = ''chunk_'' @ D2" and d2: "list_all is_digit D2"
    unfolding D2_def chunk_id_shape_def by (metis append_take_drop_id, simp)
  define R1 where "R1 = f1 @ ''_'' @ c1 @ ''_page'' @ str_int p1 @ ''.png''"
  define R2 where "R2 = f2 @ ''_'' @ c2 @ ''_page'' @ str_int p2 @ ''.png''"
  from eq have "str_nat (u1 + 1) @ CHR ''_'' # R1 = str_nat (u2 + 1) @ CHR ''_'' # R2"
    by (simp add: cutout_filename_def R1_def R2_def)
  from run_split [OF str_nat_digits str_nat_digits not_digit_underscore not_digit_underscore this]
  have n: "str_nat (u1 + 1) = str_nat (u2 + 1)" and r: "R1 = R2" by simp_all
  from n have "u1 + 1 = u2 + 1" by (rule str_nat_inj)
  then have u: "u1 = u2" by simp
  from r have "rev R1 = rev R2" by simp
  then have "rev (str_int p1) @ ''egap_'' @ (rev D1 @ ''_knuhc_'' @ rev f1) =
             rev (str_int p2) @ ''egap_'' @ (rev D2 @ ''_knuhc_'' @ rev f2)"
    by (simp add: R1_def R2_def c1 c2)
  from page_suffix_split [OF this]
  have p: "p1 = p2" and x: "rev D1 @ ''_knuhc_'' @ rev f1 = rev D2 @ ''_knuhc_'' @ rev f2"
    by simp_all
  from d1 have rd1: "list_all is_digit (rev D1)" by (simp add: list_all_iff)
  from d2 have rd2: "list_all is_digit (rev D2)" by (simp add: list_all_iff)
  from x have
    "rev D1 @ CHR ''_'' # (''knuhc_'' @ rev f1) = rev D2 @ CHR ''_'' # (''knuhc_'' @ rev f2)"
    by simp
  from run_split [OF rd1 rd2 not_digit_underscore not_digit_underscore this]
  have "D1 = D2" and "f1 = f2" by simp_all
  with u p c1 c2 show ?thesis by simp
qed

lemma extract_single_cutout_name:
  assumes "extract_single_cutout render doc fld u cid pg bb out pad sc = Some path"
  shows "path = out @ ''/'' @ cutout_filename u fld cid pg"
proof -
  from assms show ?thesis
    by (auto simp: extract_single_cutout_def Let_def split: if_splits list.splits)
qed

text \<open>
  C6. The artifact name is \<open>unit{ordinal+1}_{field}_{chunk_id}_page{page}.png\<close>, a function
  of the unit ordinal, the field, the chunk id and the page alone: whatever the renderer,
  the document, the box, the padding and the scale, a produced artifact has that name, so
  a second run gives the same name. Two combinations whose chunk ids have the shape
  \<open>chunk_\<close> plus digits get different names.
\<close>

theorem cutout_filename_injective:
  "(extract_single_cutout render doc fld u cid pg bb out pad sc = Some path \<longrightarrow>
      path = out @ ''/'' @ cutout_filename u fld cid pg) \<and>
   (chunk_id_shape c1 \<and> chunk_id_shape c2 \<and>
    cutout_filename u1 f1 c1 p1 = cutout_filename u2 f2 c2 p2 \<longrightarrow>
      u1 = u2 \<and> f1 = f2 \<and> c1 = c2 \<and> p1 = p2)"
  using extract_single_cutout_name cutout_filename_inj by blast

theorem cutout_filename_injective_witness:
  "extract_single_cutout (\<lambda>i clip sc file. True) [(600, 800)] ''price'' 0 ''chunk_003'' 1
      [100, 700, 300, 650] ''/tmp/cutouts'' 10 2
     = Some ''/tmp/cutouts/unit1_price_chunk_003_page1.png'' \<and>
   ''/tmp/cutouts/unit1_price_chunk_003_page1.png'' =
     ''/tmp/cutouts'' @ ''/'' @ cutout_filename 0 ''price'' ''chunk_003'' 1 \<and>
   chunk_id_shape ''chunk_003'' \<and> chunk_id_shape ''chunk_004'' \<and>
   cutout_filename 0 ''price'' ''chunk_003'' 1 \<noteq> cutout_filename 0 ''price'' ''chunk_004'' 1"
proof -
  have run: "extract_single_cutout (\<lambda>i clip sc file. True) [(600, 800)] ''price'' 0 ''chunk_003'' 1
      [100, 700, 300, 650] ''/tmp/cutouts'' 10 2
     = Some ''/tmp/cutouts/unit1_price_chunk_003_page1.png''"
    by (simp add: extract_single_cutout_def cutout_filename_def str_nat.simps str_int_def
        digit_char_def)
  have sh3: "chunk_id_shape ''chunk_003''" and sh4: "chunk_id_shape ''chunk_004''"
    by (simp_all add: chunk_id_shape_def is_digit_def)
  note inst = cutout_filename_injective [of "\<lambda>i clip sc file. True" "[(600, 800)]" "''price''" 0
      "''chunk_003''" 1 "[100, 700, 300, 650]" "''/tmp/cutouts''" 10 2
      "''/tmp/cutouts/unit1_price_chunk_003_page1.png''"
      "''chunk_003''" "''chunk_004''" 0 "''price''" 1 0 "''price''" 1]
  from inst run have name: "''/tmp/cutouts/unit1_price_chunk_003_page1.png'' =
     ''/tmp/cutouts'' @ ''/'' @ cutout_filename 0 ''price'' ''chunk_003'' 1"
    by blast
  from inst sh3 sh4 have "cutout_filename 0 ''price'' ''chunk_003'' 1 \<noteq>
      cutout_filename 0 ''price'' ''chunk_004'' 1"
    by auto
  with run name sh3 sh4 show ?thesis by blast
qed

text \<open>
  Without a condition on the chunk id the names collide: an underscore can belong to the
  field or to the chunk id.
\<close>

theorem cutout_filename_collision:
  "cutout_filename 0 ''a_b'' ''c'' 1 = cutout_filename 0 ''a'' ''b_c'' 1 \<and>
   (''a_b'', ''c'') \<noteq> (''a'', ''b_c'')"
  by (simp add: cutout_filename_def)

section \<open>Geometry resolution\<close>

text \<open>
  C2. For a box \<open>(l, t, r, b)\<close> in bottom-left-origin units on a page of width \<open>W\<close> and
  height \<open>H\<close>, the clip rectangle is the box converted with \<open>top = H - t\<close> and
  \<open>bottom = H - b\<close>, then padded on all four sides, then clamped to \<open>0\<close> on the left and
  top and to \<open>W\<close> and \<open>H\<close> on the right and bottom. For \<open>H = 800\<close>, \<open>W = 600\<close>, the box
  \<open>(100, 700, 300, 650)\<close> and padding \<open>10\<close> it is left 90, top 90, right 310, bottom 160,
  and that rectangle is what the renderer is called with.
\<close>

theorem geometry_resolution:
  "padded_rect W H l t r b p =
     (case spec_clamp W H (spec_pad (of_int p) (spec_convert H (l, t, r, b))) of
        (lft, tp, rgt, btm) \<Rightarrow> \<lparr>x0 = lft, y0 = tp, x1 = rgt, y1 = btm\<rparr>) \<and>
   padded_rect 600 800 100 700 300 650 10 = \<lparr>x0 = 90, y0 = 90, x1 = 310, y1 = 160\<rparr> \<and>
   extract_single_cutout
       (\<lambda>i clip sc file. i = 0 \<and> clip = \<lparr>x0 = 90, y0 = 90, x1 = 310, y1 = 160\<rparr>)
       [(600, 800)] ''sellValue'' 0 ''chunk_004'' 1 [100, 700, 300, 650] ''/tmp/cutouts'' 10 2
     = Some ''/tmp/cutouts/unit1_sellValue_chunk_004_page1.png''"
  by (simp add: padded_rect_def spec_clamp_def spec_pad_def spec_convert_def
      extract_single_cutout_def cutout_filename_def str_nat.simps str_int_def digit_char_def)

lemma padded_rect_positive_iff:
  "(x0 (padded_rect W H l t r b p) < x1 (padded_rect W H l t r b p) \<and>
    y0 (padded_rect W H l t r b p) < y1 (padded_rect W H l t r b p)) =
   (0 < W \<and> 0 < r + of_int p \<and> l - of_int p < W \<and> l - of_int p < r + of_int p \<and>
    0 < H \<and> b < H + of_int p \<and> 0 < t + of_int p \<and> b - of_int p < t + of_int p)"
  by (auto simp: padded_rect_def Let_def)

lemma extract_single_cutout_in_range:
  "1 \<le> pg \<Longrightarrow> pg \<le> int (length doc) \<Longrightarrow>
   extract_single_cutout render doc fld u cid pg [l, t, r, b] out p sc =
     (if render (nat (pg - 1))
           (padded_rect (fst (doc ! nat (pg - 1))) (snd (doc ! nat (pg - 1))) l t r b p)
           sc (out @ ''/'' @ cutout_filename u fld cid pg)
      then Some (out @ ''/'' @ cutout_filename u fld cid pg) else None)"
  by (simp add: extract_single_cutout_def Let_def)

text \<open>
  C3, as the code has it. There is no check for a degenerate region: for a page in range
  the clamped padded rectangle is always handed to the renderer, and the result is a
  failure only when the renderer fails. The rectangle has strictly positive width and
  height exactly when \<open>l - p < r + p\<close>, \<open>l - p < W\<close>, \<open>0 < r + p\<close>, \<open>0 < W\<close> and
  \<open>b - p < t + p\<close>, \<open>b < H + p\<close>, \<open>0 < t + p\<close>, \<open>0 < H\<close>.
\<close>

theorem region_positive_iff:
  "((x0 (padded_rect W H l t r b p) < x1 (padded_rect W H l t r b p) \<and>
     y0 (padded_rect W H l t r b p) < y1 (padded_rect W H l t r b p)) =
    (0 < W \<and> 0 < r + of_int p \<and> l - of_int p < W \<and> l - of_int p < r + of_int p \<and>
     0 < H \<and> b < H + of_int p \<and> 0 < t + of_int p \<and> b - of_int p < t + of_int p)) \<and>
   (1 \<le> pg \<and> pg \<le> int (length doc) \<longrightarrow>
    extract_single_cutout render doc fld u cid pg [l, t, r, b] out p sc =
      (if render (nat (pg - 1))
            (padded_rect (fst (doc ! nat (pg - 1))) (snd (doc ! nat (pg - 1))) l t r b p)
            sc (out @ ''/'' @ cutout_filename u fld cid pg)
       then Some (out @ ''/'' @ cutout_filename u fld cid pg) else None))"
  using padded_rect_positive_iff [of W H l t r b p]
    extract_single_cutout_in_range [of pg doc render fld u cid l t r b out p sc]
  by blast

theorem region_positive_iff_witness:
  "x0 (padded_rect 600 800 100 700 300 650 10) < x1 (padded_rect 600 800 100 700 300 650 10) \<and>
   y0 (padded_rect 600 800 100 700 300 650 10) < y1 (padded_rect 600 800 100 700 300 650 10) \<and>
   (1::int) \<le> 1 \<and> (1::int) \<le> int (length [(600::rat, 800::rat)]) \<and>
   extract_single_cutout (\<lambda>i clip sc file. True) [(600, 800)] ''sellValue'' 0 ''chunk_004'' 1
       [100, 700, 300, 650] ''/tmp/cutouts'' 10 2
     = Some (''/tmp/cutouts'' @ ''/'' @ cutout_filename 0 ''sellValue'' ''chunk_004'' 1)"
  using region_positive_iff [of 600 800 100 700 300 650 10 1 "[(600, 800)]"
      "\<lambda>i clip sc file. True" "''sellValue''" 0 "''chunk_004''" "''/tmp/cutouts''" 2]
  by simp

text \<open>
  A box with \<open>t < b\<close> on a 600 by 800 page, padding 10: the rectangle has top 140 and
  bottom 110, and the renderer is called with it.
\<close>

theorem degenerate_region_rendered:
  "padded_rect 600 800 100 650 300 700 10 = \<lparr>x0 = 90, y0 = 140, x1 = 310, y1 = 110\<rparr> \<and>
   \<not> ((140::rat) < 110) \<and>
   extract_single_cutout (\<lambda>i clip sc file. clip = \<lparr>x0 = 90, y0 = 140, x1 = 310, y1 = 110\<rparr>)
       [(600, 800)] ''sellValue'' 0 ''chunk_004'' 1 [100, 650, 300, 700] ''/tmp/cutouts'' 10 2
     = Some ''/tmp/cutouts/unit1_sellValue_chunk_004_page1.png''"
  by (simp add: padded_rect_def extract_single_cutout_def cutout_filename_def str_nat.simps
      str_int_def digit_char_def)

section \<open>Reconciliation\<close>

lemma merge_length: "length (merge_results_with_cutouts cr ir s3) = length cr"
  by (simp add: merge_results_with_cutouts_def)

lemma merge_nth:
  "i < length cr \<Longrightarrow> merge_results_with_cutouts cr ir s3 ! i = merge_unit ir s3 i (cr ! i)"
  by (simp add: merge_results_with_cutouts_def nth_enumerate_eq)

lemma merge_unit_fields:
  "m_unit (merge_unit ir s3 i cu) =
     (if i < length ir \<and> truthy (get_installment_plans (ir ! i))
      then (get_unit cu)(''installmentPlans'' \<mapsto> get_installment_plans (ir ! i))
      else get_unit cu)"
  by (simp add: merge_unit_def Let_def)

lemma merge_unit_sources:
  "m_sources (merge_unit ir s3 i cu) =
     (if i < length ir
      then add_installment_sources s3 (i + 1) (get_sources (ir ! i))
             (map (contract_source_entry s3 (i + 1)) (get_sources cu))
      else map (contract_source_entry s3 (i + 1)) (get_sources cu))"
  by (simp add: merge_unit_def Let_def)

lemma add_installment_sources_prefix:
  "\<exists>ext. add_installment_sources s3 n srcs acc = acc @ ext"
proof (induction srcs arbitrary: acc)
  case Nil
  then show ?case by simp
next
  case (Cons src rest)
  show ?case
  proof (cases "list_ex (\<lambda>s. out_field s = field src) acc")
    case True
    with Cons.IH [of acc] show ?thesis by simp
  next
    case False
    from Cons.IH [of "acc @ [installment_source_entry s3 n src]"] obtain ext where
      "add_installment_sources s3 n rest (acc @ [installment_source_entry s3 n src]) =
         (acc @ [installment_source_entry s3 n src]) @ ext" by blast
    with False show ?thesis by simp
  qed
qed

lemma merge_sources_prefix:
  "\<exists>ext. m_sources (merge_unit ir s3 i cu) =
     map (contract_source_entry s3 (i + 1)) (get_sources cu) @ ext"
proof (cases "i < length ir")
  case True
  then show ?thesis
    using add_installment_sources_prefix
      [of s3 "i + 1" "get_sources (ir ! i)" "map (contract_source_entry s3 (i + 1)) (get_sources cu)"]
    by (simp add: merge_unit_sources)
next
  case False
  then show ?thesis by (simp add: merge_unit_sources)
qed

lemma contract_entry_nth:
  assumes "i < length cr" and "j < length (get_sources (cr ! i))"
  shows "j < length (m_sources (merge_results_with_cutouts cr ir s3 ! i)) \<and>
         m_sources (merge_results_with_cutouts cr ir s3 ! i) ! j =
           contract_source_entry s3 (i + 1) (get_sources (cr ! i) ! j)"
proof -
  obtain ext where "m_sources (merge_unit ir s3 i (cr ! i)) =
      map (contract_source_entry s3 (i + 1)) (get_sources (cr ! i)) @ ext"
    using merge_sources_prefix by blast
  with assms show ?thesis
    by (simp add: merge_nth nth_append)
qed

lemma contract_entry_fallback:
  "lookup_uris s3 n (field src) = [] \<Longrightarrow>
   contract_source_entry s3 n src =
     \<lparr>out_field = field src,
      chunk_file_key = (if src_chunk_id src = Some ''calculated'' then None else src_chunk_id src)\<rparr>"
  by (simp add: contract_source_entry_def)

lemma installment_entry_added:
  assumes "j < length srcs"
    and "\<not> list_ex (\<lambda>s. out_field s = field (srcs ! j)) acc"
    and "\<not> list_ex (\<lambda>s. field s = field (srcs ! j)) (take j srcs)"
  shows "installment_source_entry s3 n (srcs ! j) \<in> set (add_installment_sources s3 n srcs acc)"
  using assms
proof (induction srcs arbitrary: acc j)
  case Nil
  then show ?case by simp
next
  case (Cons src rest)
  let ?e = "installment_source_entry s3 n src"
  have of_e: "out_field ?e = field src" by (simp add: installment_source_entry_def)
  show ?case
  proof (cases j)
    case 0
    with Cons.prems have notin: "\<not> list_ex (\<lambda>s. out_field s = field src) acc"
      by simp
    obtain ext where "add_installment_sources s3 n rest (acc @ [?e]) = (acc @ [?e]) @ ext"
      using add_installment_sources_prefix by blast
    with notin have "?e \<in> set (add_installment_sources s3 n (src # rest) acc)" by simp
    then show ?thesis unfolding 0 nth_Cons_0 .
  next
    case (Suc j')
    with Cons.prems have j': "j' < length rest"
      and ne: "field src \<noteq> field (rest ! j')"
      and nacc: "\<not> list_ex (\<lambda>s. out_field s = field (rest ! j')) acc"
      and ntake: "\<not> list_ex (\<lambda>s. field s = field (rest ! j')) (take j' rest)"
      by auto
    show ?thesis
    proof (cases "list_ex (\<lambda>s. out_field s = field src) acc")
      case True
      with Cons.IH [OF j' nacc ntake] show ?thesis unfolding Suc nth_Cons_Suc by simp
    next
      case False
      from nacc ne of_e have "\<not> list_ex (\<lambda>s. out_field s = field (rest ! j')) (acc @ [?e])"
        by simp
      from Cons.IH [OF j' this ntake] False show ?thesis unfolding Suc nth_Cons_Suc by simp
    qed
  qed
qed

lemma process_source_unknown_chunk:
  "src_chunk_id src = Some cid \<Longrightarrow> find (\<lambda>c. chunk_id c = Some cid) chunks = None \<Longrightarrow>
   process_source fs render doc chunks out pad sc i src cp = Inr cp"
  by (simp add: process_source_def split: option.splits)

lemma add_installment_sources_entries:
  assumes "\<forall>ms\<in>set acc. P ms"
    and "\<forall>src\<in>set srcs. P (installment_source_entry s3 n src)"
  shows "\<forall>ms\<in>set (add_installment_sources s3 n srcs acc). P ms"
  using assms
proof (induction srcs arbitrary: acc)
  case Nil
  then show ?case by simp
next
  case (Cons src rest)
  from Cons.prems have rest: "\<forall>src\<in>set rest. P (installment_source_entry s3 n src)"
    and e: "P (installment_source_entry s3 n src)" by simp_all
  show ?case
  proof (cases "list_ex (\<lambda>s. out_field s = field src) acc")
    case True
    with Cons.IH [OF Cons.prems(1) rest] show ?thesis by simp
  next
    case False
    from Cons.prems(1) e have "\<forall>ms\<in>set (acc @ [installment_source_entry s3 n src]). P ms"
      by simp
    from Cons.IH [OF this rest] False show ?thesis by simp
  qed
qed

lemma merged_entry_cases:
  assumes "ms \<in> set (m_sources (merge_unit ir s3 i cu))"
  shows "(\<exists>src\<in>set (get_sources cu). ms = contract_source_entry s3 (i + 1) src) \<or>
         (i < length ir \<and> (\<exists>src\<in>set (get_sources (ir ! i)). ms = installment_source_entry s3 (i + 1) src))"
proof (cases "i < length ir")
  case True
  let ?P = "\<lambda>ms. (\<exists>src\<in>set (get_sources cu). ms = contract_source_entry s3 (i + 1) src) \<or>
         (\<exists>src\<in>set (get_sources (ir ! i)). ms = installment_source_entry s3 (i + 1) src)"
  have "\<forall>ms\<in>set (add_installment_sources s3 (i + 1) (get_sources (ir ! i))
             (map (contract_source_entry s3 (i + 1)) (get_sources cu))). ?P ms"
    by (rule add_installment_sources_entries) auto
  with assms True show ?thesis by (simp add: merge_unit_sources)
next
  case False
  with assms show ?thesis by (auto simp: merge_unit_sources)
qed

text \<open>
  C1, as the code has it. The merge has exactly one unit per unit of the base (contract)
  pass. Merged unit \<open>i\<close> holds the field map of the base pass's unit \<open>i\<close>, with
  \<open>installmentPlans\<close> set from the installment pass's unit \<open>i\<close> when that unit exists and
  its plans are non-empty: every field of the base unit is present, and no field other
  than \<open>installmentPlans\<close> is taken from the installment pass.
\<close>

theorem merge_keeps_base_fields:
  "length (merge_results_with_cutouts cr ir s3) = length cr \<and>
   (i < length cr \<longrightarrow>
      m_unit (merge_results_with_cutouts cr ir s3 ! i) =
        (if i < length ir \<and> truthy (get_installment_plans (ir ! i))
         then (get_unit (cr ! i))(''installmentPlans'' \<mapsto> get_installment_plans (ir ! i))
         else get_unit (cr ! i)) \<and>
      dom (get_unit (cr ! i)) \<subseteq> dom (m_unit (merge_results_with_cutouts cr ir s3 ! i)) \<and>
      dom (m_unit (merge_results_with_cutouts cr ir s3 ! i)) \<subseteq>
        dom (get_unit (cr ! i)) \<union> {''installmentPlans''})"
  by (auto simp: merge_length merge_nth merge_unit_fields)

theorem merge_keeps_base_fields_witness:
  "length (merge_results_with_cutouts
      [\<lparr>unit_d = Some [''unitCode'' \<mapsto> PStr ''64'', ''sellValue'' \<mapsto> PInt 100000],
        sources = Some [], confidence = Some Map.empty\<rparr>]
      [\<lparr>unit_d = Some [''installmentPlans'' \<mapsto> PList [PDict [(''series'', PStr ''MENSAL'')]]],
        sources = Some [], confidence = Some Map.empty\<rparr>]
      Map.empty) = 1 \<and>
   m_unit (merge_results_with_cutouts
      [\<lparr>unit_d = Some [''unitCode'' \<mapsto> PStr ''64'', ''sellValue'' \<mapsto> PInt 100000],
        sources = Some [], confidence = Some Map.empty\<rparr>]
      [\<lparr>unit_d = Some [''installmentPlans'' \<mapsto> PList [PDict [(''series'', PStr ''MENSAL'')]]],
        sources = Some [], confidence = Some Map.empty\<rparr>]
      Map.empty ! 0) =
     [''unitCode'' \<mapsto> PStr ''64'', ''sellValue'' \<mapsto> PInt 100000,
      ''installmentPlans'' \<mapsto> PList [PDict [(''series'', PStr ''MENSAL'')]]]"
  using merge_keeps_base_fields
    [of "[\<lparr>unit_d = Some [''unitCode'' \<mapsto> PStr ''64'', ''sellValue'' \<mapsto> PInt 100000],
        sources = Some [], confidence = Some Map.empty\<rparr>]"
      "[\<lparr>unit_d = Some [''installmentPlans'' \<mapsto> PList [PDict [(''series'', PStr ''MENSAL'')]]],
        sources = Some [], confidence = Some Map.empty\<rparr>]"
      Map.empty 0]
  by (simp add: get_unit_def get_installment_plans_def)

text \<open>
  A field of the installment pass's unit that the base unit lacks is not in the merged
  unit: here \<open>unitCode\<close>.
\<close>

theorem merge_drops_second_pass_field:
  "get_unit \<lparr>unit_d = Some [''unitCode'' \<mapsto> PStr ''64'', ''installmentPlans'' \<mapsto> PList []],
             sources = Some [], confidence = Some Map.empty\<rparr> ''unitCode'' = Some (PStr ''64'') \<and>
   get_unit \<lparr>unit_d = Some [''sellValue'' \<mapsto> PInt 100000],
             sources = Some [], confidence = Some Map.empty\<rparr> ''unitCode'' = None \<and>
   m_unit (merge_results_with_cutouts
      [\<lparr>unit_d = Some [''sellValue'' \<mapsto> PInt 100000],
        sources = Some [], confidence = Some Map.empty\<rparr>]
      [\<lparr>unit_d = Some [''unitCode'' \<mapsto> PStr ''64'', ''installmentPlans'' \<mapsto> PList []],
        sources = Some [], confidence = Some Map.empty\<rparr>]
      Map.empty ! 0) ''unitCode'' = None"
  by (simp add: merge_results_with_cutouts_def enumerate_eq_zip merge_unit_def get_unit_def
      get_installment_plans_def get_sources_def get_confidence_def)

text \<open>
  C5. With one contract unit and two installment units, \<open>merge_results_with_cutouts\<close>
  returns one merged unit, while the combination that \<open>main\<close> builds for the cutouts and
  the report appends the second installment unit at the end.
\<close>

theorem merge_drops_extra_units:
  "length (merge_results_with_cutouts
      [\<lparr>unit_d = Some [''unitCode'' \<mapsto> PStr ''64''], sources = Some [], confidence = Some Map.empty\<rparr>]
      [\<lparr>unit_d = Some [''unitCode'' \<mapsto> PStr ''64''], sources = Some [], confidence = Some Map.empty\<rparr>,
       \<lparr>unit_d = Some [''unitCode'' \<mapsto> PStr ''65''], sources = Some [], confidence = Some Map.empty\<rparr>]
      Map.empty) = 1 \<and>
   (\<exists>u. combine_results
      [\<lparr>unit_d = Some [''unitCode'' \<mapsto> PStr ''64''], sources = Some [], confidence = Some Map.empty\<rparr>]
      [\<lparr>unit_d = Some [''unitCode'' \<mapsto> PStr ''64''], sources = Some [], confidence = Some Map.empty\<rparr>,
       \<lparr>unit_d = Some [''unitCode'' \<mapsto> PStr ''65''], sources = Some [], confidence = Some Map.empty\<rparr>]
     = Inr [u, \<lparr>unit_d = Some [''unitCode'' \<mapsto> PStr ''65''], sources = Some [],
                 confidence = Some Map.empty\<rparr>])"
  by (simp add: merge_results_with_cutouts_def combine_results_def add_installment_def)

lemma contract_fields_list_ex:
  "list_ex (\<lambda>s. out_field s = f) (map (contract_source_entry s3 n) srcs) =
   list_ex (\<lambda>s. field s = f) srcs"
  by (induction srcs) (simp_all add: contract_source_entry_def)

lemma installment_entry_in_merged:
  assumes i: "i < length cr" "i < length ir"
    and k: "k < length (get_sources (ir ! i))"
    and nc: "\<not> list_ex (\<lambda>s. field s = field (get_sources (ir ! i) ! k)) (get_sources (cr ! i))"
    and nt: "\<not> list_ex (\<lambda>s. field s = field (get_sources (ir ! i) ! k)) (take k (get_sources (ir ! i)))"
  shows "installment_source_entry s3 (i + 1) (get_sources (ir ! i) ! k)
           \<in> set (m_sources (merge_results_with_cutouts cr ir s3 ! i))"
proof -
  from nc have "\<not> list_ex (\<lambda>s. out_field s = field (get_sources (ir ! i) ! k))
      (map (contract_source_entry s3 (i + 1)) (get_sources (cr ! i)))"
    by (simp add: contract_fields_list_ex)
  from installment_entry_added [OF k this nt] i show ?thesis
    by (simp add: merge_nth merge_unit_sources)
qed

text \<open>
  C4, as the code has it. A citation whose chunk id is not in the chunk list adds nothing
  to the artifact map and raises nothing. The merge has one unit per contract unit and
  one source entry per contract citation, in order, with the citation's field; when the
  artifact map has nothing under the citation's field key, the entry's \<open>chunk_file_key\<close>
  is the literal chunk id, or null when the chunk id is \<open>calculated\<close>. The first
  installment citation of a field that no contract citation has, with nothing under its
  field key and a chunk id other than \<open>calculated\<close>, appears with its literal chunk id.
\<close>

theorem unknown_chunk_fallback:
  "(src_chunk_id src = Some cid \<and> find (\<lambda>c. chunk_id c = Some cid) chunks = None \<longrightarrow>
      process_source fs render doc chunks out pad sc i src cp = Inr cp) \<and>
   length (merge_results_with_cutouts cr ir s3) = length cr \<and>
   (i < length cr \<and> j < length (get_sources (cr ! i)) \<longrightarrow>
      j < length (m_sources (merge_results_with_cutouts cr ir s3 ! i)) \<and>
      out_field (m_sources (merge_results_with_cutouts cr ir s3 ! i) ! j) =
        field (get_sources (cr ! i) ! j) \<and>
      (lookup_uris s3 (i + 1) (field (get_sources (cr ! i) ! j)) = [] \<longrightarrow>
         chunk_file_key (m_sources (merge_results_with_cutouts cr ir s3 ! i) ! j) =
           (if src_chunk_id (get_sources (cr ! i) ! j) = Some ''calculated'' then None
            else src_chunk_id (get_sources (cr ! i) ! j)))) \<and>
   (i < length cr \<and> i < length ir \<and> k < length (get_sources (ir ! i)) \<and>
    \<not> list_ex (\<lambda>s. field s = field (get_sources (ir ! i) ! k)) (get_sources (cr ! i)) \<and>
    \<not> list_ex (\<lambda>s. field s = field (get_sources (ir ! i) ! k)) (take k (get_sources (ir ! i))) \<and>
    lookup_uris s3 (i + 1) (field (get_sources (ir ! i) ! k)) = [] \<and>
    src_chunk_id (get_sources (ir ! i) ! k) \<noteq> Some ''calculated'' \<longrightarrow>
      \<lparr>out_field = field (get_sources (ir ! i) ! k),
       chunk_file_key = src_chunk_id (get_sources (ir ! i) ! k)\<rparr>
        \<in> set (m_sources (merge_results_with_cutouts cr ir s3 ! i)))"
proof (intro conjI impI)
  assume "src_chunk_id src = Some cid \<and> find (\<lambda>c. chunk_id c = Some cid) chunks = None"
  then show "process_source fs render doc chunks out pad sc i src cp = Inr cp"
    using process_source_unknown_chunk by blast
next
  show "length (merge_results_with_cutouts cr ir s3) = length cr" by (rule merge_length)
next
  assume a: "i < length cr \<and> j < length (get_sources (cr ! i))"
  then show "j < length (m_sources (merge_results_with_cutouts cr ir s3 ! i))"
    using contract_entry_nth by blast
  from a show "out_field (m_sources (merge_results_with_cutouts cr ir s3 ! i) ! j) =
        field (get_sources (cr ! i) ! j)"
    using contract_entry_nth [of i cr j ir s3] by (simp add: contract_source_entry_def)
  assume "lookup_uris s3 (i + 1) (field (get_sources (cr ! i) ! j)) = []"
  with a show "chunk_file_key (m_sources (merge_results_with_cutouts cr ir s3 ! i) ! j) =
           (if src_chunk_id (get_sources (cr ! i) ! j) = Some ''calculated'' then None
            else src_chunk_id (get_sources (cr ! i) ! j))"
    using contract_entry_nth [of i cr j ir s3]
    by (simp add: contract_entry_fallback)
next
  assume a: "i < length cr \<and> i < length ir \<and> k < length (get_sources (ir ! i)) \<and>
    \<not> list_ex (\<lambda>s. field s = field (get_sources (ir ! i) ! k)) (get_sources (cr ! i)) \<and>
    \<not> list_ex (\<lambda>s. field s = field (get_sources (ir ! i) ! k)) (take k (get_sources (ir ! i))) \<and>
    lookup_uris s3 (i + 1) (field (get_sources (ir ! i) ! k)) = [] \<and>
    src_chunk_id (get_sources (ir ! i) ! k) \<noteq> Some ''calculated''"
  then have "installment_source_entry s3 (i + 1) (get_sources (ir ! i) ! k)
           \<in> set (m_sources (merge_results_with_cutouts cr ir s3 ! i))"
    using installment_entry_in_merged by blast
  with a show "\<lparr>out_field = field (get_sources (ir ! i) ! k),
       chunk_file_key = src_chunk_id (get_sources (ir ! i) ! k)\<rparr>
        \<in> set (m_sources (merge_results_with_cutouts cr ir s3 ! i))"
    by (simp add: installment_source_entry_def)
qed

theorem unknown_chunk_fallback_witness:
  "process_source (\<lambda>s. None) (\<lambda>i clip sc file. True) [(600, 800)] example_chunks
       ''/tmp/cutouts'' 10 2 0 \<lparr>field = Some ''buyerName'', src_chunk_id = Some ''chunk_999''\<rparr> []
     = Inr [] \<and>
   length (merge_results_with_cutouts [example_contract_unit] [example_installment_unit] Map.empty) = 1 \<and>
   out_field (m_sources (merge_results_with_cutouts [example_contract_unit]
        [example_installment_unit] Map.empty ! 0) ! 2) = Some ''buyerName'' \<and>
   chunk_file_key (m_sources (merge_results_with_cutouts [example_contract_unit]
        [example_installment_unit] Map.empty ! 0) ! 2) = Some ''chunk_999'' \<and>
   \<lparr>out_field = Some ''installmentPlans'', chunk_file_key = Some ''chunk_998''\<rparr>
     \<in> set (m_sources (merge_results_with_cutouts [example_contract_unit]
        [example_installment_unit] Map.empty ! 0))"
  using unknown_chunk_fallback [where src = "\<lparr>field = Some ''buyerName'', src_chunk_id = Some ''chunk_999''\<rparr>"
      and cid = "''chunk_999''" and chunks = example_chunks and fs = "\<lambda>s. None"
      and render = "\<lambda>i clip sc file. True" and doc = "[(600, 800)]" and out = "''/tmp/cutouts''"
      and pad = 10 and sc = 2 and i = 0 and cp = "[]" and cr = "[example_contract_unit]"
      and ir = "[example_installment_unit]" and ?s3.0 = Map.empty and j = 2 and k = 0]
  by (simp add: example_chunks_def example_contract_unit_def example_installment_unit_def
      get_sources_def lookup_uris_def)

text \<open>
  The artifact map is keyed by unit and field, not by chunk: when another citation of the
  same unit and field produced an artifact, the citation of the absent \<open>chunk_999\<close> gets
  that artifact's URI.
\<close>

theorem cited_unknown_chunk_gets_other_artifact:
  "find (\<lambda>c. chunk_id c = Some ''chunk_999'') example_chunks = None \<and>
   get_sources example_contract_unit ! 1 =
     \<lparr>field = Some ''sellValue'', src_chunk_id = Some ''chunk_999''\<rparr> \<and>
   extract_cutouts (\<lambda>s. None) (\<lambda>i clip sc file. True) [(600, 800)] [example_contract_unit]
       ''/tmp/cutouts'' 10 2 example_chunks
     = Inr [(''unit1_sellValue'', [''/tmp/cutouts/unit1_sellValue_chunk_003_page1.png''])] \<and>
   fst (upload_cutouts_to_s3 (\<lambda>p b k. True) Map.empty
        [(''unit1_sellValue'', [''/tmp/cutouts/unit1_sellValue_chunk_003_page1.png''])]
        ''bucket'' ''job'')
     = [(''unit1_sellValue'', [''s3://bucket/contracts/job/unit_1/sellValue.png''])] \<and>
   chunk_file_key (m_sources (merge_results_with_cutouts [example_contract_unit] []
        (map_of [(''unit1_sellValue'', [''s3://bucket/contracts/job/unit_1/sellValue.png''])]) ! 0) ! 1)
     = Some ''s3://bucket/contracts/job/unit_1/sellValue.png''"
  by (intro conjI; code_simp)

lemma contract_entry_first_uri:
  "s3 (field_key n (str_opt (field src))) = Some (u # us) \<Longrightarrow>
   chunk_file_key (contract_source_entry s3 n src) = Some u"
  by (simp add: contract_source_entry_def lookup_uris_def)

lemma installment_entry_first_uri:
  "s3 (field_key n (str_opt (field src))) = Some (u # us) \<Longrightarrow>
   chunk_file_key (installment_source_entry s3 n src) = Some u"
  by (simp add: installment_source_entry_def lookup_uris_def)

lemma contract_entry_no_uri:
  "s3 (field_key n (str_opt (field src))) = None \<or> s3 (field_key n (str_opt (field src))) = Some [] \<Longrightarrow>
   chunk_file_key (contract_source_entry s3 n src) = None \<or>
   chunk_file_key (contract_source_entry s3 n src) = src_chunk_id src"
  by (auto simp: contract_source_entry_def lookup_uris_def)

lemma installment_entry_no_uri:
  "s3 (field_key n (str_opt (field src))) = None \<or> s3 (field_key n (str_opt (field src))) = Some [] \<Longrightarrow>
   chunk_file_key (installment_source_entry s3 n src) = src_chunk_id src"
  by (auto simp: installment_source_entry_def lookup_uris_def)

text \<open>
  C10. For every source entry of merged unit \<open>i\<close>: when the artifact map holds a
  non-empty URI list under the entry's field key, \<open>chunk_file_key\<close> is the first URI of
  that list; otherwise it is null or the raw chunk id of a citation of that field. So a
  URI that is not first in its list reaches no unit's sources through the artifact map.
\<close>

theorem first_uri_is_chunk_file_key:
  "i < length cr \<and> ms \<in> set (m_sources (merge_results_with_cutouts cr ir s3 ! i)) \<longrightarrow>
     (case s3 (field_key (i + 1) (str_opt (out_field ms))) of
        Some (u # us) \<Rightarrow> chunk_file_key ms = Some u
      | _ \<Rightarrow> chunk_file_key ms = None \<or>
             (\<exists>src. (src \<in> set (get_sources (cr ! i)) \<or>
                     i < length ir \<and> src \<in> set (get_sources (ir ! i))) \<and>
                    field src = out_field ms \<and> chunk_file_key ms = src_chunk_id src))"
proof
  assume a: "i < length cr \<and> ms \<in> set (m_sources (merge_results_with_cutouts cr ir s3 ! i))"
  then have il: "i < length cr"
    and min: "ms \<in> set (m_sources (merge_results_with_cutouts cr ir s3 ! i))" by simp_all
  from min have "ms \<in> set (m_sources (merge_unit ir s3 i (cr ! i)))"
    by (simp add: merge_nth [OF il])
  from merged_entry_cases [OF this]
  consider src where "src \<in> set (get_sources (cr ! i))" "ms = contract_source_entry s3 (i + 1) src"
    | src where "i < length ir" "src \<in> set (get_sources (ir ! i))"
        "ms = installment_source_entry s3 (i + 1) src"
    by blast
  then show "(case s3 (field_key (i + 1) (str_opt (out_field ms))) of
        Some (u # us) \<Rightarrow> chunk_file_key ms = Some u
      | _ \<Rightarrow> chunk_file_key ms = None \<or>
             (\<exists>src. (src \<in> set (get_sources (cr ! i)) \<or>
                     i < length ir \<and> src \<in> set (get_sources (ir ! i))) \<and>
                    field src = out_field ms \<and> chunk_file_key ms = src_chunk_id src))"
  proof cases
    case 1
    have f: "out_field ms = field src" using 1 by (simp add: contract_source_entry_def)
    show ?thesis
    proof (cases "s3 (field_key (i + 1) (str_opt (out_field ms)))")
      case None
      with contract_entry_no_uri [of s3 "i + 1" src] f 1 show ?thesis by auto
    next
      case (Some uris)
      show ?thesis
      proof (cases uris)
        case Nil
        with Some contract_entry_no_uri [of s3 "i + 1" src] f 1 show ?thesis by auto
      next
        case (Cons u us)
        with Some contract_entry_first_uri [of s3 "i + 1" src u us] f 1 show ?thesis by simp
      qed
    qed
  next
    case 2
    have f: "out_field ms = field src" using 2 by (simp add: installment_source_entry_def)
    show ?thesis
    proof (cases "s3 (field_key (i + 1) (str_opt (out_field ms)))")
      case None
      with installment_entry_no_uri [of s3 "i + 1" src] f 2 show ?thesis by auto
    next
      case (Some uris)
      show ?thesis
      proof (cases uris)
        case Nil
        with Some installment_entry_no_uri [of s3 "i + 1" src] f 2 show ?thesis by auto
      next
        case (Cons u us)
        with Some installment_entry_first_uri [of s3 "i + 1" src u us] f 2 show ?thesis by simp
      qed
    qed
  qed
qed

theorem first_uri_is_chunk_file_key_witness:
  "1 < length (m_sources (merge_results_with_cutouts [example_contract_unit] []
        (map_of [(''unit1_sellValue'', [''s3://bucket/a.png'', ''s3://bucket/b.png''])]) ! 0)) \<and>
   out_field (m_sources (merge_results_with_cutouts [example_contract_unit] []
        (map_of [(''unit1_sellValue'', [''s3://bucket/a.png'', ''s3://bucket/b.png''])]) ! 0) ! 1)
     = Some ''sellValue'' \<and>
   chunk_file_key (m_sources (merge_results_with_cutouts [example_contract_unit] []
        (map_of [(''unit1_sellValue'', [''s3://bucket/a.png'', ''s3://bucket/b.png''])]) ! 0) ! 1)
     = Some ''s3://bucket/a.png''"
proof -
  let ?s3 = "map_of [(''unit1_sellValue'', [''s3://bucket/a.png'', ''s3://bucket/b.png''])]"
  let ?M = "merge_results_with_cutouts [example_contract_unit] [] ?s3 ! 0"
  have len: "1 < length (m_sources ?M)" by code_simp
  have fld: "out_field (m_sources ?M ! 1) = Some ''sellValue''" by code_simp
  have key: "?s3 (field_key (0 + 1) (str_opt (Some ''sellValue''))) =
      Some [''s3://bucket/a.png'', ''s3://bucket/b.png'']" by code_simp
  from len have "m_sources ?M ! 1 \<in> set (m_sources ?M)" by (rule nth_mem)
  then have hyp: "0 < length [example_contract_unit] \<and> m_sources ?M ! 1 \<in> set (m_sources ?M)"
    by simp
  note c = first_uri_is_chunk_file_key
      [of 0 "[example_contract_unit]" "m_sources ?M ! 1" "[]" ?s3, THEN mp, OF hyp]
  from c have "chunk_file_key (m_sources ?M ! 1) = Some ''s3://bucket/a.png''"
    by (simp only: fld key option.case list.case)
  with len fld show ?thesis by blast
qed

section \<open>Chunk identifiers\<close>

lemma tables_loop_eq:
  "tables_loop ts (cs, n) =
     (cs @ map numbered_chunk (enumerate n (List.map_filter table_entry ts)),
      n + length (List.map_filter table_entry ts))"
proof (induction ts arbitrary: cs n)
  case Nil
  then show ?case by (simp add: map_filter_simps)
next
  case (Cons tbl rest)
  show ?case
  proof (cases "table_prov tbl")
    case Nil
    then have "table_entry tbl = None" by (simp add: table_entry_def)
    with Nil Cons.IH show ?thesis by (simp add: map_filter_simps)
  next
    case (Cons pv pvs)
    then have "table_entry tbl = Some (table_markdown tbl, pv, Some ''table'')"
      by (simp add: table_entry_def)
    with Cons Cons.IH show ?thesis by (simp add: map_filter_simps numbered_chunk_def)
  qed
qed

lemma items_loop_eq:
  "items_loop its (cs, n) =
     (cs @ map numbered_chunk (enumerate n (List.map_filter item_entry its)),
      n + length (List.map_filter item_entry its))"
proof (induction its arbitrary: cs n)
  case Nil
  then show ?case by (simp add: map_filter_simps)
next
  case (Cons item rest)
  show ?case
  proof (cases "item_entry item")
    case None
    then have "items_loop (item # rest) (cs, n) = items_loop rest (cs, n)"
      by (auto simp: item_entry_def split: option.splits list.splits if_splits)
    with None Cons.IH show ?thesis by (simp add: map_filter_simps)
  next
    case (Some e)
    obtain tx pv et where e: "e = (tx, pv, et)" by (cases e) auto
    with Some have "items_loop (item # rest) (cs, n) =
        items_loop rest (cs @ [make_chunk n tx pv et], n + 1)"
      by (auto simp: item_entry_def split: option.splits list.splits if_splits)
    with Some e Cons.IH show ?thesis by (simp add: map_filter_simps numbered_chunk_def)
  qed
qed

lemma parse_pdf_to_chunks_eq:
  "parse_pdf_to_chunks tables items = map numbered_chunk (enumerate 0 (emitted tables items))"
  by (simp add: parse_pdf_to_chunks_def tables_loop_eq items_loop_eq emitted_def
      enumerate_append_eq)

lemma nat_of_digits_zeros: "nat_of_digits (replicate k CHR ''0'' @ s) = nat_of_digits s"
  by (induction k) (simp_all add: nat_of_digits_def digit_val_def)

lemma format_03d_inj: "format_03d m = format_03d n \<Longrightarrow> m = n"
proof -
  assume "format_03d m = format_03d n"
  then have "nat_of_digits (format_03d m) = nat_of_digits (format_03d n)" by simp
  then show "m = n" by (simp add: format_03d_def nat_of_digits_zeros nat_of_digits_str_nat)
qed

lemma zeros_digits: "list_all is_digit (replicate k CHR ''0'')"
  by (induction k) (simp_all add: is_digit_def)

lemma format_03d_digits: "list_all is_digit (format_03d n)"
  using str_nat_digits [of n] zeros_digits by (simp add: format_03d_def)

lemma numbered_chunk_id:
  "chunk_id (numbered_chunk (n, e)) = Some (''chunk_'' @ format_03d n)"
  by (cases e) (simp add: numbered_chunk_def make_chunk_def)

lemma parse_chunk_id_nth:
  assumes "n < length (parse_pdf_to_chunks tables items)"
  shows "chunk_id (parse_pdf_to_chunks tables items ! n) = Some (''chunk_'' @ format_03d n)"
proof -
  from assms have n: "n < length (emitted tables items)" by (simp add: parse_pdf_to_chunks_eq)
  then show ?thesis
    by (simp add: parse_pdf_to_chunks_eq nth_enumerate_eq numbered_chunk_id)
qed

lemma parse_chunk_ids_distinct: "distinct (map chunk_id (parse_pdf_to_chunks tables items))"
proof -
  have "\<And>i j. i < length (parse_pdf_to_chunks tables items) \<Longrightarrow>
      j < length (parse_pdf_to_chunks tables items) \<Longrightarrow> i \<noteq> j \<Longrightarrow>
      chunk_id (parse_pdf_to_chunks tables items ! i) \<noteq> chunk_id (parse_pdf_to_chunks tables items ! j)"
    using format_03d_inj by (auto simp: parse_chunk_id_nth)
  then show ?thesis by (simp add: distinct_conv_nth)
qed

lemma map_filter_skip:
  "f x = None \<Longrightarrow> List.map_filter f (before @ x # after) = List.map_filter f (before @ after)"
  by (simp add: List.map_filter_def)

lemma item_entry_skipped:
  "item_text item = None \<or> item_text item = Some [] \<or>
   (\<exists>tx. item_text item = Some tx \<and> strip_ws tx = []) \<or> item_prov item = [] \<Longrightarrow>
   item_entry item = None"
  by (auto simp: item_entry_def split: option.splits list.splits)

lemma parse_skips_item:
  assumes "item_text item = None \<or> item_text item = Some [] \<or>
   (\<exists>tx. item_text item = Some tx \<and> strip_ws tx = []) \<or> item_prov item = []"
  shows "parse_pdf_to_chunks tables (before @ item # after) =
         parse_pdf_to_chunks tables (before @ after)"
  using map_filter_skip [of item_entry item before after, OF item_entry_skipped [OF assms]]
  by (simp add: parse_pdf_to_chunks_eq emitted_def)

text \<open>
  C8. The chunk list is the tables with location metadata followed by the items with
  non-blank text and location metadata, numbered in that order: chunk \<open>n\<close> has the id
  \<open>chunk_\<close> followed by \<open>n\<close> zero-padded to three digits, so ids are dense and pairwise
  distinct. An item with missing, empty or whitespace-only text, or without location
  metadata, changes nothing: the list is the one of the document without that item.
\<close>

theorem parse_pdf_to_chunks_ids:
  "parse_pdf_to_chunks tables items = map numbered_chunk (enumerate 0 (emitted tables items)) \<and>
   (n < length (parse_pdf_to_chunks tables items) \<longrightarrow>
      chunk_id (parse_pdf_to_chunks tables items ! n) = Some (''chunk_'' @ format_03d n) \<and>
      chunk_id_shape (''chunk_'' @ format_03d n)) \<and>
   distinct (map chunk_id (parse_pdf_to_chunks tables items)) \<and>
   (item_text item = None \<or> item_text item = Some [] \<or>
    (\<exists>tx. item_text item = Some tx \<and> strip_ws tx = []) \<or> item_prov item = [] \<longrightarrow>
      parse_pdf_to_chunks tables (before @ item # after) =
      parse_pdf_to_chunks tables (before @ after))"
proof (intro conjI impI)
  show "parse_pdf_to_chunks tables items = map numbered_chunk (enumerate 0 (emitted tables items))"
    by (rule parse_pdf_to_chunks_eq)
next
  assume "n < length (parse_pdf_to_chunks tables items)"
  then show "chunk_id (parse_pdf_to_chunks tables items ! n) = Some (''chunk_'' @ format_03d n)"
    by (rule parse_chunk_id_nth)
next
  show "chunk_id_shape (''chunk_'' @ format_03d n)"
    using format_03d_digits [of n] by (simp add: chunk_id_shape_def)
next
  show "distinct (map chunk_id (parse_pdf_to_chunks tables items))"
    by (rule parse_chunk_ids_distinct)
next
  assume "item_text item = None \<or> item_text item = Some [] \<or>
    (\<exists>tx. item_text item = Some tx \<and> strip_ws tx = []) \<or> item_prov item = []"
  then show "parse_pdf_to_chunks tables (before @ item # after) =
      parse_pdf_to_chunks tables (before @ after)"
    by (rule parse_skips_item)
qed

theorem parse_pdf_to_chunks_ids_witness:
  "map chunk_id (parse_pdf_to_chunks example_tables example_items) =
     [Some ''chunk_000'', Some ''chunk_001''] \<and>
   map element_type (parse_pdf_to_chunks example_tables example_items) =
     [Some ''table'', Some ''paragraph''] \<and>
   chunk_id (parse_pdf_to_chunks example_tables example_items ! 1) = Some (''chunk_'' @ format_03d 1) \<and>
   strip_ws ''   '' = [] \<and>
   parse_pdf_to_chunks example_tables ([] @ (example_items ! 0) # tl example_items) =
     parse_pdf_to_chunks example_tables ([] @ tl example_items)"
proof -
  have ids: "map chunk_id (parse_pdf_to_chunks example_tables example_items) =
     [Some ''chunk_000'', Some ''chunk_001'']" by code_simp
  have types: "map element_type (parse_pdf_to_chunks example_tables example_items) =
     [Some ''table'', Some ''paragraph'']" by code_simp
  have blank: "strip_ws ''   '' = []" by code_simp
  have len: "1 < length (parse_pdf_to_chunks example_tables example_items)"
    using arg_cong [OF ids, of length] by simp
  have skip: "item_text (example_items ! 0) = None \<or> item_text (example_items ! 0) = Some [] \<or>
    (\<exists>tx. item_text (example_items ! 0) = Some tx \<and> strip_ws tx = []) \<or>
    item_prov (example_items ! 0) = []"
    using blank by (simp add: example_items_def)
  note inst = parse_pdf_to_chunks_ids [of example_tables example_items 1 "example_items ! 0" "[]"
      "tl example_items"]
  from inst len have "chunk_id (parse_pdf_to_chunks example_tables example_items ! 1) =
      Some (''chunk_'' @ format_03d 1)" by blast
  moreover from inst skip have
    "parse_pdf_to_chunks example_tables ([] @ (example_items ! 0) # tl example_items) =
     parse_pdf_to_chunks example_tables ([] @ tl example_items)" by blast
  ultimately show ?thesis using ids types blank by blast
qed

section \<open>Storage keys\<close>

lemma remove_unit_digits: "list_all is_digit s \<Longrightarrow> remove_unit s = s"
proof (induction s)
  case Nil
  then show ?case by (simp add: remove_unit.simps [of "[]"])
next
  case (Cons c cs)
  then have cu: "c \<noteq> CHR ''u''" by (auto simp: is_digit_def)
  with Cons show ?case by (simp add: remove_unit.simps [of "c # cs"])
qed

lemma no_underscore_digits: "list_all is_digit s \<Longrightarrow> CHR ''_'' \<notin> set s"
  by (auto simp: list_all_iff is_digit_def)

lemma key_parts_field_key: "key_parts (field_key n fld) = (str_nat n, fld)"
proof -
  let ?u = "''unit'' @ str_nat n"
  have nu: "\<forall>x\<in>set ?u. x \<noteq> CHR ''_''"
    using no_underscore_digits [OF str_nat_digits [of n]] by auto
  have fk: "field_key n fld = ?u @ CHR ''_'' # fld" by (simp add: field_key_def)
  from nu have tw: "takeWhile (\<lambda>x. x \<noteq> CHR ''_'') (?u @ CHR ''_'' # fld) = ?u"
    by (simp add: takeWhile_tail)
  from nu have dw: "dropWhile (\<lambda>x. x \<noteq> CHR ''_'') (?u @ CHR ''_'' # fld) = CHR ''_'' # fld"
    by (simp add: dropWhile_append3)
  have ru: "remove_unit ?u = str_nat n"
    using remove_unit_digits [OF str_nat_digits [of n]]
    by (subst remove_unit.simps) simp
  show ?thesis
    unfolding key_parts_def split_once_def fk using tw dw ru by (simp add: Let_def)
qed

lemma s3_key_field_key:
  "s3_key job_id (field_key n fld) local_path =
     ''contracts/'' @ job_id @ ''/unit_'' @ str_nat n @ ''/'' @ fld @ splitext_ext local_path"
  by (simp add: s3_key_def key_parts_field_key Let_def)


lemma rfind_dot_png: "rfind CHR ''.'' (X @ ''.png'') = int (length X)"
  by (simp add: rfind_def)

lemma rfind_slash_png:
  assumes "X \<noteq> []" and "last X \<noteq> CHR ''/''"
  shows "rfind CHR ''/'' (X @ ''.png'') =
           int (length X) - 1 - int (length (takeWhile (\<lambda>x. x \<noteq> CHR ''/'') (rev X)))"
proof (cases "CHR ''/'' \<in> set X")
  case True
  then show ?thesis by (simp add: rfind_def)
next
  case False
  then have tw: "takeWhile (\<lambda>x. x \<noteq> CHR ''/'') (rev X) = rev X"
    by (auto simp: takeWhile_eq_all_conv)
  have "length (takeWhile (\<lambda>x. x \<noteq> CHR ''/'') (rev X)) = length X"
    unfolding tw by simp
  with False show ?thesis by (simp add: rfind_def)
qed

lemma splitext_png:
  assumes ne: "X \<noteq> []" and nd: "last X \<noteq> CHR ''.''" and ns: "last X \<noteq> CHR ''/''"
  shows "splitext_ext (X @ ''.png'') = ''.png''"
proof -
  define m where "m = length (takeWhile (\<lambda>x. x \<noteq> CHR ''/'') (rev X))"
  have m_le: "m \<le> length X"
    unfolding m_def using length_takeWhile_le [of "\<lambda>x. x \<noteq> CHR ''/''" "rev X"] by simp
  from ne ns have "hd (rev X) \<noteq> CHR ''/''" by (simp add: hd_rev)
  with ne have m_pos: "0 < m" unfolding m_def by (cases "rev X") auto
  have sep: "rfind CHR ''/'' (X @ ''.png'') = int (length X) - 1 - int m"
    unfolding m_def by (rule rfind_slash_png [OF ne ns])
  have dot: "rfind CHR ''.'' (X @ ''.png'') = int (length X)" by (rule rfind_dot_png)
  define seg where "seg = drop (length X - m) X"
  from m_le m_pos ne have seg_ne: "seg \<noteq> []" unfolding seg_def by simp
  from m_le m_pos ne have "last seg = last X" unfolding seg_def by simp
  with nd seg_ne have ex: "list_ex (\<lambda>c. c \<noteq> CHR ''.'') seg"
    using last_in_set [OF seg_ne] by (auto simp: list_ex_iff)
  from m_le have n1: "nat (int (length X) - (int (length X) - 1 - int m + 1)) = m" by simp
  from m_le have n2: "nat (int (length X) - 1 - int m + 1) = length X - m" by simp
  from m_le have segeq: "take m (drop (length X - m) (X @ ''.png'')) = seg"
    unfolding seg_def by simp
  from m_pos have gt: "int (length X) > int (length X) - 1 - int m" by simp
  show ?thesis
    unfolding splitext_ext_def Let_def sep dot n1 n2 segeq using gt ex by simp
qed

lemma last_str_nat_digit: "is_digit (last (str_nat n))"
  using str_nat_digits [of n] str_nat_nonempty [of n] last_in_set [of "str_nat n"]
  by (simp add: list_all_iff)

lemma last_str_int_digit: "is_digit (last (str_int i))"
  using last_str_nat_digit str_nat_nonempty by (simp add: str_int_def)

lemma str_int_nonempty: "str_int i \<noteq> []"
  by (simp add: str_int_def str_nat_nonempty)

lemma cutout_path_ext:
  "splitext_ext (out @ ''/'' @ cutout_filename u fld cid pg) = ''.png''"
proof -
  define X where "X = out @ ''/'' @ ''unit'' @ str_nat (u + 1) @ ''_'' @ fld @ ''_'' @ cid @
     ''_page'' @ str_int pg"
  have p: "out @ ''/'' @ cutout_filename u fld cid pg = X @ ''.png''"
    by (simp add: X_def cutout_filename_def)
  have ne: "X \<noteq> []" by (simp add: X_def)
  have "last X = last (str_int pg)" by (simp add: X_def str_int_nonempty)
  with last_str_int_digit [of pg] have d: "is_digit (last X)" by simp
  then have "last X \<noteq> CHR ''.''" and "last X \<noteq> CHR ''/''" by (auto simp: is_digit_def)
  with ne show ?thesis unfolding p by (rule splitext_png)
qed

lemma upload_paths_const_key:
  assumes "\<forall>p\<in>set paths. s3_key job_id fkey p = K"
  shows "upload_paths cu bucket job_id fkey paths (uris, store) =
     (uris @ replicate (length (filter (\<lambda>p. cu p bucket K) paths)) (''s3://'' @ bucket @ ''/'' @ K),
      if filter (\<lambda>p. cu p bucket K) paths = [] then store
      else store((bucket, K) \<mapsto> last (filter (\<lambda>p. cu p bucket K) paths)))"
  using assms
proof (induction paths arbitrary: uris store)
  case Nil
  then show ?case by simp
next
  case (Cons p rest)
  then have k: "s3_key job_id fkey p = K" and r: "\<forall>p\<in>set rest. s3_key job_id fkey p = K"
    by simp_all
  show ?case
  proof (cases "cu p bucket K")
    case True
    with k Cons.IH [OF r] show ?thesis
      by (auto simp: upload_file_from_path_def replicate_app_Cons_same fun_upd_def)
  next
    case False
    with k Cons.IH [OF r] show ?thesis
      by (simp add: upload_file_from_path_def)
  qed
qed

lemma upload_paths_uris:
  "fst (upload_paths cu bucket job_id fkey paths (uris, store)) =
     uris @ map (\<lambda>p. ''s3://'' @ bucket @ ''/'' @ s3_key job_id fkey p)
              (filter (\<lambda>p. cu p bucket (s3_key job_id fkey p)) paths)"
proof (induction paths arbitrary: uris store)
  case Nil
  then show ?case by simp
next
  case (Cons p rest)
  show ?case
    by (cases "cu p bucket (s3_key job_id fkey p)")
       (simp_all add: upload_file_from_path_def Cons.IH)
qed

lemma upload_items_uris:
  "fst (upload_items cu bucket job_id cps (acc, store)) =
     acc @ map (\<lambda>(k, ps). (k, map (\<lambda>p. ''s3://'' @ bucket @ ''/'' @ s3_key job_id k p)
                                (filter (\<lambda>p. cu p bucket (s3_key job_id k p)) ps))) cps"
proof (induction cps arbitrary: acc store)
  case Nil
  then show ?case by simp
next
  case (Cons kp rest)
  obtain k ps where kp: "kp = (k, ps)" by (cases kp) auto
  obtain us st where up: "upload_paths cu bucket job_id k ps ([], store) = (us, st)"
    by (cases "upload_paths cu bucket job_id k ps ([], store)") auto
  from up have "us = fst (upload_paths cu bucket job_id k ps ([], store))" by simp
  then have us: "us = map (\<lambda>p. ''s3://'' @ bucket @ ''/'' @ s3_key job_id k p)
                                (filter (\<lambda>p. cu p bucket (s3_key job_id k p)) ps)"
    by (simp add: upload_paths_uris)
  from kp up us Cons.IH [of "acc @ [(k, us)]" st] show ?case by simp
qed

text \<open>
  C9. The storage key of an uploaded cutout is
  \<open>contracts/{job_id}/unit_{index}/{fieldName}{ext}\<close>: for the field key
  \<open>unit{n}_{field}\<close> it is built from the job id, \<open>n\<close>, the field and the extension of the
  local path, and every cutout path of the extractor has the extension \<open>.png\<close>. The
  returned URI list of a field key holds one URI per successful upload. When all paths of
  a field key have one extension, all its URIs are the same, every upload goes to the
  same key, and the store keeps the last file uploaded there.
\<close>

theorem upload_same_key:
  "s3_key job_id (field_key n fld) local_path =
     ''contracts/'' @ job_id @ ''/unit_'' @ str_nat n @ ''/'' @ fld @ splitext_ext local_path \<and>
   splitext_ext (out @ ''/'' @ cutout_filename u f cid pg) = ''.png'' \<and>
   fst (upload_cutouts_to_s3 cu store cps bucket job_id) =
     map (\<lambda>(k, ps). (k, map (\<lambda>p. ''s3://'' @ bucket @ ''/'' @ s3_key job_id k p)
                            (filter (\<lambda>p. cu p bucket (s3_key job_id k p)) ps))) cps \<and>
   (list_all (\<lambda>p. splitext_ext p = ext) paths \<longrightarrow>
      upload_paths cu bucket job_id (field_key n fld) paths ([], store) =
        (replicate
           (length (filter (\<lambda>p. cu p bucket
              (''contracts/'' @ job_id @ ''/unit_'' @ str_nat n @ ''/'' @ fld @ ext)) paths))
           (''s3://'' @ bucket @ ''/'' @
              (''contracts/'' @ job_id @ ''/unit_'' @ str_nat n @ ''/'' @ fld @ ext)),
         if filter (\<lambda>p. cu p bucket
              (''contracts/'' @ job_id @ ''/unit_'' @ str_nat n @ ''/'' @ fld @ ext)) paths = []
         then store
         else store((bucket, ''contracts/'' @ job_id @ ''/unit_'' @ str_nat n @ ''/'' @ fld @ ext)
                \<mapsto> last (filter (\<lambda>p. cu p bucket
              (''contracts/'' @ job_id @ ''/unit_'' @ str_nat n @ ''/'' @ fld @ ext)) paths))))"
proof (intro conjI impI)
  show "s3_key job_id (field_key n fld) local_path =
     ''contracts/'' @ job_id @ ''/unit_'' @ str_nat n @ ''/'' @ fld @ splitext_ext local_path"
    by (rule s3_key_field_key)
next
  show "splitext_ext (out @ ''/'' @ cutout_filename u f cid pg) = ''.png''"
    by (rule cutout_path_ext)
next
  show "fst (upload_cutouts_to_s3 cu store cps bucket job_id) =
     map (\<lambda>(k, ps). (k, map (\<lambda>p. ''s3://'' @ bucket @ ''/'' @ s3_key job_id k p)
                            (filter (\<lambda>p. cu p bucket (s3_key job_id k p)) ps))) cps"
    by (simp add: upload_cutouts_to_s3_def upload_items_uris)
next
  let ?K = "''contracts/'' @ job_id @ ''/unit_'' @ str_nat n @ ''/'' @ fld @ ext"
  assume "list_all (\<lambda>p. splitext_ext p = ext) paths"
  then have "\<forall>p\<in>set paths. s3_key job_id (field_key n fld) p = ?K"
    by (simp add: list_all_iff s3_key_field_key)
  from upload_paths_const_key [OF this, of cu bucket "[]" store]
  show "upload_paths cu bucket job_id (field_key n fld) paths ([], store) =
        (replicate (length (filter (\<lambda>p. cu p bucket ?K) paths)) (''s3://'' @ bucket @ ''/'' @ ?K),
         if filter (\<lambda>p. cu p bucket ?K) paths = [] then store
         else store((bucket, ?K) \<mapsto> last (filter (\<lambda>p. cu p bucket ?K) paths)))"
    by simp
qed

theorem upload_same_key_witness:
  "list_all (\<lambda>p. splitext_ext p = ''.png'')
     [''/tmp/cutouts/unit1_sellValue_chunk_003_page1.png'',
      ''/tmp/cutouts/unit1_sellValue_chunk_004_page1.png''] \<and>
   field_key 1 ''sellValue'' = ''unit1_sellValue'' \<and>
   fst (upload_paths (\<lambda>p b k. True) ''bucket'' ''job'' (field_key 1 ''sellValue'')
     [''/tmp/cutouts/unit1_sellValue_chunk_003_page1.png'',
      ''/tmp/cutouts/unit1_sellValue_chunk_004_page1.png''] ([], Map.empty)) =
     [''s3://bucket/contracts/job/unit_1/sellValue.png'',
      ''s3://bucket/contracts/job/unit_1/sellValue.png''] \<and>
   snd (upload_paths (\<lambda>p b k. True) ''bucket'' ''job'' (field_key 1 ''sellValue'')
     [''/tmp/cutouts/unit1_sellValue_chunk_003_page1.png'',
      ''/tmp/cutouts/unit1_sellValue_chunk_004_page1.png''] ([], Map.empty))
     (''bucket'', ''contracts/job/unit_1/sellValue.png'') =
     Some ''/tmp/cutouts/unit1_sellValue_chunk_004_page1.png''"
proof -
  have h: "list_all (\<lambda>p. splitext_ext p = ''.png'')
     [''/tmp/cutouts/unit1_sellValue_chunk_003_page1.png'',
      ''/tmp/cutouts/unit1_sellValue_chunk_004_page1.png'']" by code_simp
  have fk: "field_key 1 ''sellValue'' = ''unit1_sellValue''" by code_simp
  have sn: "str_nat (Suc 0) = ''1''" by code_simp
  note inst = upload_same_key [where n = 1 and fld = "''sellValue''" and job_id = "''job''"
      and bucket = "''bucket''" and cu = "\<lambda>p b k. True" and store = Map.empty
      and ext = "''.png''"
      and paths = "[''/tmp/cutouts/unit1_sellValue_chunk_003_page1.png'',
      ''/tmp/cutouts/unit1_sellValue_chunk_004_page1.png'']",
      THEN conjunct2, THEN conjunct2, THEN conjunct2, THEN mp, OF h]
  from inst have up:
    "fst (upload_paths (\<lambda>p b k. True) ''bucket'' ''job'' (field_key 1 ''sellValue'')
       [''/tmp/cutouts/unit1_sellValue_chunk_003_page1.png'',
        ''/tmp/cutouts/unit1_sellValue_chunk_004_page1.png''] ([], Map.empty)) =
       [''s3://bucket/contracts/job/unit_1/sellValue.png'',
        ''s3://bucket/contracts/job/unit_1/sellValue.png''] \<and>
     snd (upload_paths (\<lambda>p b k. True) ''bucket'' ''job'' (field_key 1 ''sellValue'')
       [''/tmp/cutouts/unit1_sellValue_chunk_003_page1.png'',
        ''/tmp/cutouts/unit1_sellValue_chunk_004_page1.png''] ([], Map.empty))
       (''bucket'', ''contracts/job/unit_1/sellValue.png'') =
       Some ''/tmp/cutouts/unit1_sellValue_chunk_004_page1.png''"
    by (simp add: sn del: upload_paths.simps)
  with h fk show ?thesis by blast
qed

section \<open>Parsing a bounding box\<close>

text \<open>
  A numeric list and a string whose four comma-separated pieces read as the same numbers
  parse to the same value; a list of another length, a value of another type and a string
  with a piece that is not a number give \<open>None\<close>.
\<close>

lemma parse_bbox_numeric_list:
  "parse_bbox fs (PList [PFloat l, PFloat t, PFloat r, PFloat b]) = Inr (Some [l, t, r, b])"
  by (simp add: parse_bbox_def catch_value_error_def)

lemma parse_bbox_string:
  assumes "map strip_ws (split_on CHR '','' (strip_chars ''()'' s)) = [a, b, c, d]"
    and "fs a = Some l" and "fs b = Some t" and "fs c = Some r" and "fs d = Some bt"
  shows "parse_bbox fs (PStr s) = Inr (Some [l, t, r, bt])"
proof -
  have m: "map (\<lambda>x. PStr (strip_ws x)) (split_on CHR '','' (strip_chars ''()'' s))
             = map PStr [a, b, c, d]"
  proof -
    have "map (\<lambda>x. PStr (strip_ws x)) (split_on CHR '','' (strip_chars ''()'' s))
            = map PStr (map strip_ws (split_on CHR '','' (strip_chars ''()'' s)))"
      by (simp add: comp_def)
    then show ?thesis unfolding assms(1) .
  qed
  show ?thesis
    using assms(2-) by (simp add: parse_bbox_def catch_value_error_def Let_def m)
qed

lemma parse_bbox_round_trip:
  assumes "map strip_ws (split_on CHR '','' (strip_chars ''()'' s)) = [a, b, c, d]"
    and "fs a = Some l" and "fs b = Some t" and "fs c = Some r" and "fs d = Some bt"
  shows "parse_bbox fs (PStr s) = parse_bbox fs (PList [PFloat l, PFloat t, PFloat r, PFloat bt])"
  using parse_bbox_string [OF assms] by (simp add: parse_bbox_numeric_list)

lemma parse_bbox_string_example:
  "map strip_ws (split_on CHR '','' (strip_chars ''()'' ''(10, 20, 100, 200)''))
     = [''10'', ''20'', ''100'', ''200'']"
  by code_simp

lemma parse_bbox_wrong_arity:
  "length xs \<noteq> 4 \<Longrightarrow> parse_bbox fs (PList xs) = Inr None"
  by (simp add: parse_bbox_def catch_value_error_def)

lemma parse_bbox_other_type:
  "parse_bbox fs PNone = Inr None"
  "parse_bbox fs (PInt i) = Inr None"
  "parse_bbox fs (PFloat x) = Inr None"
  "parse_bbox fs (PBool bl) = Inr None"
  "parse_bbox fs (PDict kvs) = Inr None"
  by (simp_all add: parse_bbox_def catch_value_error_def)

lemma parse_bbox_string_not_numeric:
  "fs (strip_ws (hd (split_on CHR '','' (strip_chars ''()'' s)))) = None \<Longrightarrow>
   split_on CHR '','' (strip_chars ''()'' s) \<noteq> [] \<Longrightarrow>
   parse_bbox fs (PStr s) = Inr None"
  by (cases "split_on CHR '','' (strip_chars ''()'' s)")
     (simp_all add: parse_bbox_def catch_value_error_def Let_def)

text \<open>
  C7. A four-element list whose first element is \<open>None\<close>: \<open>float(None)\<close> raises
  \<open>TypeError\<close>, which the \<open>try\<close> block of \<open>_parse_bbox\<close> does not catch, so the exception
  leaves \<open>_parse_bbox\<close> and \<open>extract_cutouts\<close> instead of the box being reported as
  unparseable.
\<close>

theorem parse_bbox_type_error:
  "parse_bbox fs (PList [PNone, PInt 20, PInt 100, PInt 200]) = Inl TypeError \<and>
   extract_cutouts fs render doc
     [\<lparr>unit_d = Some Map.empty,
       sources = Some [\<lparr>field = Some ''sellValue'', src_chunk_id = Some ''chunk_000''\<rparr>],
       confidence = Some Map.empty\<rparr>]
     out pad sc
     [\<lparr>chunk_id = Some ''chunk_000'', chunk_text = ''x'', page = Some 1,
       bbox = PList [PNone, PInt 20, PInt 100, PInt 200], element_type = None\<rparr>]
   = Inl TypeError"
  by (simp add: parse_bbox_def catch_value_error_def extract_cutouts_def process_source_def
      get_sources_def)

end
